theory Spec2Isabelle
  imports Main "HOL-Library.Word"
begin

text \<open>
  A model of \<open>index.js\<close> of contract-puller: \<open>parseSourceCode\<close>,
  \<open>writeContractFiles\<close>, \<open>saveResults\<close>, \<open>fetchContract\<close> and \<open>main\<close>, with the
  parts of the JavaScript runtime they rest on (\<open>JSON.parse\<close>, \<open>JSON.stringify\<close>,
  property reads and assignments, \<open>Object.entries\<close>). The file system is a map from
  paths to contents, threaded through the functions that write; an exception is a value
  \<open>Inl e\<close>. The network, the clock and \<open>path.join\<close> are parameters.
\<close>

section \<open>JavaScript strings and values\<close>

text \<open>
  A JavaScript string is a sequence of 16-bit code units. Literals of the source are
  written \<open>js ''...''\<close>; a single character of the source is \<open>ch CHR ''x''\<close>.
\<close>

type_synonym jstring = "16 word list"

abbreviation (input) ch :: "char \<Rightarrow> 16 word" where
  "ch c \<equiv> of_char c"

definition js :: "string \<Rightarrow> jstring" where
  "js s = map of_char s"

text \<open>\<open>s.startsWith(p)\<close>\<close>

definition startsWith :: "jstring \<Rightarrow> jstring \<Rightarrow> bool" where
  "startsWith s p = (take (length p) s = p)"

text \<open>\<open>s.slice(1, -1)\<close>: from index \<open>min 1 len\<close> up to index \<open>max (len - 1) 0\<close>.\<close>

definition slice_1_neg1 :: "jstring \<Rightarrow> jstring" where
  "slice_1_neg1 s =
     (let len = length s; from = min 1 len; to = len - 1
      in take (to - from) (drop from s))"

text \<open>
  The values \<open>JSON.parse\<close> can produce. An object is the list of its own properties in
  insertion order, with distinct keys. A number is kept as the lexeme it was read from:
  the IEEE double the runtime computes from it is not modelled. \<open>undefined\<close> is not a
  JSON value; where the source can read it, the model uses \<open>None\<close> of \<open>jsval option\<close>.
\<close>

datatype jsval =
    JNull
  | JBool bool
  | JNum jstring
  | JStr jstring
  | JArr "jsval list"
  | JObj "(jstring \<times> jsval) list"

text \<open>
  The exceptions of a run: the three \<open>Error\<close>s the source throws itself (\<open>Empty source
  code\<close>, \<open>API Error\<close>, \<open>No contract data returned\<close>), the missing address that ends
  \<open>main\<close> before its \<open>try\<close>, a failed request, and the runtime's \<open>TypeError\<close> and
  \<open>RangeError\<close>.
\<close>

datatype error =
    Empty_source_code
  | API_Error
  | No_contract_data
  | Missing_address
  | Network_error
  | TypeError
  | RangeError

text \<open>
  Defining an own data property (what \<open>JSON.parse\<close> does for each member): an existing
  key keeps its position and takes the new value, a new key goes last.
\<close>

fun obj_define :: "(jstring \<times> 'a) list \<Rightarrow> jstring \<Rightarrow> 'a \<Rightarrow> (jstring \<times> 'a) list" where
  "obj_define [] k v = [(k, v)]"
| "obj_define ((k', v') # kvs) k v =
     (if k' = k then (k, v) # kvs else (k', v') # obj_define kvs k v)"

section \<open>\<open>JSON.parse\<close>\<close>

text \<open>
  The built-in parser, after the JSON grammar of ECMA-262: a lexer over code units and
  a pushdown automaton over tokens. \<open>None\<close> stands for the \<open>SyntaxError\<close> it throws.
\<close>

datatype token =
    TLBrace | TRBrace | TLBrack | TRBrack | TColon | TComma
  | TString jstring | TNumber jstring | TTrue | TFalse | TNull

definition is_ws :: "16 word \<Rightarrow> bool" where
  "is_ws c = (c = 0x20 \<or> c = 0x09 \<or> c = 0x0A \<or> c = 0x0D)"

definition is_digit :: "16 word \<Rightarrow> bool" where
  "is_digit c = (0x30 \<le> c \<and> c \<le> 0x39)"

definition hex_val :: "16 word \<Rightarrow> 16 word option" where
  "hex_val c =
     (if 0x30 \<le> c \<and> c \<le> 0x39 then Some (c - 0x30)
      else if 0x41 \<le> c \<and> c \<le> 0x46 then Some (c - 0x41 + 10)
      else if 0x61 \<le> c \<and> c \<le> 0x66 then Some (c - 0x61 + 10)
      else None)"

definition hex4 :: "16 word \<Rightarrow> 16 word \<Rightarrow> 16 word \<Rightarrow> 16 word \<Rightarrow> 16 word option" where
  "hex4 a b c d =
     (case (hex_val a, hex_val b, hex_val c, hex_val d) of
        (Some x, Some y, Some z, Some w) \<Rightarrow> Some (x * 0x1000 + y * 0x100 + z * 0x10 + w)
      | _ \<Rightarrow> None)"

definition unescape :: "16 word \<Rightarrow> 16 word option" where
  "unescape e =
     (if e = ch CHR 0x22 then Some (ch CHR 0x22)
      else if e = ch CHR 0x5C then Some (ch CHR 0x5C)
      else if e = ch CHR ''/'' then Some (ch CHR ''/'')
      else if e = ch CHR ''b'' then Some 0x08
      else if e = ch CHR ''f'' then Some 0x0C
      else if e = ch CHR ''n'' then Some 0x0A
      else if e = ch CHR ''r'' then Some 0x0D
      else if e = ch CHR ''t'' then Some 0x09
      else None)"

text \<open>
  The body of a string literal, read after its opening quote: the decoded string and the
  number of code units read, the closing quote included.
\<close>

fun scan_string :: "jstring \<Rightarrow> (jstring \<times> nat) option" where
  "scan_string [] = None"
| "scan_string (c # cs) =
     (if c = ch CHR 0x22 then Some ([], 1)
      else if c = ch CHR 0x5C then
        (case cs of
           [] \<Rightarrow> None
         | e # r \<Rightarrow>
             if e = ch CHR ''u'' then
               (case r of
                  h1 # h2 # h3 # h4 # r' \<Rightarrow>
                    (case hex4 h1 h2 h3 h4 of
                       None \<Rightarrow> None
                     | Some u \<Rightarrow> map_option (\<lambda>(s, n). (u # s, n + 6)) (scan_string r'))
                | _ \<Rightarrow> None)
             else
               (case unescape e of
                  None \<Rightarrow> None
                | Some u \<Rightarrow> map_option (\<lambda>(s, n). (u # s, n + 2)) (scan_string r)))
      else if c < 0x20 then None
      else map_option (\<lambda>(s, n). (c # s, n + 1)) (scan_string cs))"

text \<open>
  The lexeme of a number at the head of the input:
  \<open>-? (0 | [1-9][0-9]*) (. [0-9]+)? ([eE] [+-]? [0-9]+)?\<close>.
\<close>

definition int_part :: "jstring \<Rightarrow> jstring option" where
  "int_part r =
     (case r of
        [] \<Rightarrow> None
      | d # r' \<Rightarrow>
          if \<not> is_digit d then None
          else if d = ch CHR ''0'' then Some [d]
          else Some (d # takeWhile is_digit r'))"

definition frac_part :: "jstring \<Rightarrow> jstring option" where
  "frac_part r =
     (case r of
        [] \<Rightarrow> Some []
      | p # r' \<Rightarrow>
          if p = ch CHR ''.'' then
            (if takeWhile is_digit r' = [] then None else Some (p # takeWhile is_digit r'))
          else Some [])"

definition exp_sign :: "jstring \<Rightarrow> jstring" where
  "exp_sign r =
     (case r of
        [] \<Rightarrow> []
      | s # r' \<Rightarrow> if s = ch CHR ''+'' \<or> s = ch CHR ''-'' then [s] else [])"

definition exp_part :: "jstring \<Rightarrow> jstring option" where
  "exp_part r =
     (case r of
        [] \<Rightarrow> Some []
      | e # r' \<Rightarrow>
          if e = ch CHR ''e'' \<or> e = ch CHR ''E'' then
            (if takeWhile is_digit (drop (length (exp_sign r')) r') = [] then None
             else Some (e # exp_sign r' @ takeWhile is_digit (drop (length (exp_sign r')) r')))
          else Some [])"

definition scan_number :: "jstring \<Rightarrow> jstring option" where
  "scan_number cs =
     (let sign = (if startsWith cs (js ''-'') then js ''-'' else [])
      in case int_part (drop (length sign) cs) of
           None \<Rightarrow> None
         | Some ip \<Rightarrow>
             (case frac_part (drop (length (sign @ ip)) cs) of
                None \<Rightarrow> None
              | Some fr \<Rightarrow>
                  (case exp_part (drop (length (sign @ ip @ fr)) cs) of
                     None \<Rightarrow> None
                   | Some ex \<Rightarrow> Some (sign @ ip @ fr @ ex))))"

fun lex :: "jstring \<Rightarrow> token list option" where
  "lex [] = Some []"
| "lex (c # cs) =
     (if is_ws c then lex cs
      else if c = ch CHR ''{'' then map_option (Cons TLBrace) (lex cs)
      else if c = ch CHR ''}'' then map_option (Cons TRBrace) (lex cs)
      else if c = ch CHR ''['' then map_option (Cons TLBrack) (lex cs)
      else if c = ch CHR '']'' then map_option (Cons TRBrack) (lex cs)
      else if c = ch CHR '':'' then map_option (Cons TColon) (lex cs)
      else if c = ch CHR '','' then map_option (Cons TComma) (lex cs)
      else if c = ch CHR 0x22 then
        (case scan_string cs of
           None \<Rightarrow> None
         | Some (s, n) \<Rightarrow> map_option (Cons (TString s)) (lex (drop n cs)))
      else if c = ch CHR ''-'' \<or> is_digit c then
        (case scan_number (c # cs) of
           None \<Rightarrow> None
         | Some l \<Rightarrow> map_option (Cons (TNumber l)) (lex (drop (length l - 1) cs)))
      else if startsWith (c # cs) (js ''true'') then map_option (Cons TTrue) (lex (drop 3 cs))
      else if startsWith (c # cs) (js ''false'') then map_option (Cons TFalse) (lex (drop 4 cs))
      else if startsWith (c # cs) (js ''null'') then map_option (Cons TNull) (lex (drop 3 cs))
      else None)"

text \<open>
  The automaton. A frame is a container waiting for the value being read: an array with
  the elements read so far, or an object with its members so far and the pending key.
\<close>

datatype frame =
    FArr "jsval list"
  | FObj "(jstring \<times> jsval) list" jstring

datatype pstate =
    SVal "frame list"
  | SArr0 "frame list"
  | SObj0 "frame list"
  | SKey "(jstring \<times> jsval) list" "frame list"
  | SColon "(jstring \<times> jsval) list" jstring "frame list"
  | SArrNext "jsval list" "frame list"
  | SObjNext "(jstring \<times> jsval) list" "frame list"
  | SDone jsval

fun deliver :: "jsval \<Rightarrow> frame list \<Rightarrow> pstate" where
  "deliver v [] = SDone v"
| "deliver v (FArr xs # fs) = SArrNext (xs @ [v]) fs"
| "deliver v (FObj kvs k # fs) = SObjNext (obj_define kvs k v) fs"

fun value_step :: "frame list \<Rightarrow> token \<Rightarrow> pstate option" where
  "value_step fs (TString s) = Some (deliver (JStr s) fs)"
| "value_step fs (TNumber l) = Some (deliver (JNum l) fs)"
| "value_step fs TTrue = Some (deliver (JBool True) fs)"
| "value_step fs TFalse = Some (deliver (JBool False) fs)"
| "value_step fs TNull = Some (deliver JNull fs)"
| "value_step fs TLBrack = Some (SArr0 fs)"
| "value_step fs TLBrace = Some (SObj0 fs)"
| "value_step fs _ = None"

fun step :: "pstate \<Rightarrow> token \<Rightarrow> pstate option" where
  "step (SVal fs) t = value_step fs t"
| "step (SArr0 fs) t = (if t = TRBrack then Some (deliver (JArr []) fs) else value_step (FArr [] # fs) t)"
| "step (SObj0 fs) t =
     (case t of
        TRBrace \<Rightarrow> Some (deliver (JObj []) fs)
      | TString k \<Rightarrow> Some (SColon [] k fs)
      | _ \<Rightarrow> None)"
| "step (SKey kvs fs) t = (case t of TString k \<Rightarrow> Some (SColon kvs k fs) | _ \<Rightarrow> None)"
| "step (SColon kvs k fs) t = (if t = TColon then Some (SVal (FObj kvs k # fs)) else None)"
| "step (SArrNext xs fs) t =
     (case t of
        TComma \<Rightarrow> Some (SVal (FArr xs # fs))
      | TRBrack \<Rightarrow> Some (deliver (JArr xs) fs)
      | _ \<Rightarrow> None)"
| "step (SObjNext kvs fs) t =
     (case t of
        TComma \<Rightarrow> Some (SKey kvs fs)
      | TRBrace \<Rightarrow> Some (deliver (JObj kvs) fs)
      | _ \<Rightarrow> None)"
| "step (SDone v) t = None"

fun run :: "pstate \<Rightarrow> token list \<Rightarrow> jsval option" where
  "run st [] = (case st of SDone v \<Rightarrow> Some v | _ \<Rightarrow> None)"
| "run st (t # ts) = (case step st t of None \<Rightarrow> None | Some st' \<Rightarrow> run st' ts)"

definition json_parse :: "jstring \<Rightarrow> jsval option" where
  "json_parse s = (case lex s of None \<Rightarrow> None | Some ts \<Rightarrow> run (SVal []) ts)"

section \<open>Property reads and truthiness\<close>

text \<open>
  \<open>o.p\<close> for the property names the source reads from parsed data (\<open>sources\<close>,
  \<open>content\<close>), which no built-in prototype defines: an own property of an object, a
  \<open>TypeError\<close> on \<open>null\<close>, \<open>undefined\<close> otherwise.
\<close>

definition js_get :: "jsval \<Rightarrow> jstring \<Rightarrow> error + jsval option" where
  "js_get v p =
     (case v of
        JNull \<Rightarrow> Inl TypeError
      | JObj kvs \<Rightarrow> Inr (map_of kvs p)
      | _ \<Rightarrow> Inr None)"

text \<open>A number is zero when every digit of its mantissa is.\<close>

definition num_is_zero :: "jstring \<Rightarrow> bool" where
  "num_is_zero l =
     (filter (\<lambda>c. is_digit c \<and> c \<noteq> ch CHR ''0'')
        (takeWhile (\<lambda>c. c \<noteq> ch CHR ''e'' \<and> c \<noteq> ch CHR ''E'') l) = [])"

fun truthy :: "jsval option \<Rightarrow> bool" where
  "truthy None = False"
| "truthy (Some JNull) = False"
| "truthy (Some (JBool b)) = b"
| "truthy (Some (JNum l)) = (\<not> num_is_zero l)"
| "truthy (Some (JStr s)) = (s \<noteq> [])"
| "truthy (Some (JArr xs)) = True"
| "truthy (Some (JObj kvs)) = True"

text \<open>\<open>typeof v === 'object'\<close>\<close>

fun typeof_object :: "jsval option \<Rightarrow> bool" where
  "typeof_object (Some JNull) = True"
| "typeof_object (Some (JArr xs)) = True"
| "typeof_object (Some (JObj kvs)) = True"
| "typeof_object _ = False"

section \<open>parseSourceCode\<close>

text \<open>
  \<open>contractName ? `${contractName}.sol` : 'Contract.sol'\<close>. The name is optional:
  \<open>None\<close> is an argument left out, and the empty string is falsy as well.
\<close>

definition fileName :: "jstring option \<Rightarrow> jstring" where
  "fileName contractName =
     (case contractName of
        None \<Rightarrow> js ''Contract.sol''
      | Some n \<Rightarrow> if n \<noteq> [] then n @ js ''.sol'' else js ''Contract.sol'')"

definition single_file :: "jstring option \<Rightarrow> jstring \<Rightarrow> jsval" where
  "single_file contractName sourceCode =
     JObj [(fileName contractName, JObj [(js ''content'', JStr sourceCode)])]"

text \<open>
  The \<open>catch\<close> of the source covers the whole \<open>try\<close> block, so it also receives a
  \<open>TypeError\<close> of the property read.
\<close>

definition parseSourceCode :: "jstring \<Rightarrow> jstring option \<Rightarrow> error + jsval" where
  "parseSourceCode sourceCode contractName =
     (if sourceCode = [] then Inl Empty_source_code
      else if startsWith sourceCode (js ''{'') then
        (let parsed = (if startsWith sourceCode (js ''{{'') then slice_1_neg1 sourceCode
                       else sourceCode)
         in case json_parse parsed of
              None \<Rightarrow> Inr (single_file contractName sourceCode)
            | Some jsonData \<Rightarrow>
                (case js_get jsonData (js ''sources'') of
                   Inl e \<Rightarrow> Inr (single_file contractName sourceCode)
                 | Inr None \<Rightarrow> Inr jsonData
                 | Inr (Some sources) \<Rightarrow>
                     if truthy (Some sources) \<and> typeof_object (Some sources) then Inr sources
                     else Inr jsonData))
      else Inr (single_file contractName sourceCode))"

section \<open>Enumerating the properties of a value\<close>

text \<open>
  An array index is a canonical numeric string below \<open>2^32 - 1\<close>. The own properties of
  an object are enumerated with the array indices first, in ascending order, then the
  other keys in insertion order.
\<close>

definition digits_val :: "jstring \<Rightarrow> nat" where
  "digits_val k = foldl (\<lambda>n c. 10 * n + unat (c - 0x30)) 0 k"

definition is_array_index :: "jstring \<Rightarrow> bool" where
  "is_array_index k =
     (case k of
        [] \<Rightarrow> False
      | c # cs \<Rightarrow>
          list_all is_digit k \<and> (cs = [] \<or> c \<noteq> ch CHR ''0'')
          \<and> digits_val k \<le> 4294967294)"

definition own_props :: "(jstring \<times> 'a) list \<Rightarrow> (jstring \<times> 'a) list" where
  "own_props kvs =
     sort_key (\<lambda>(k, v). digits_val k) (filter (\<lambda>(k, v). is_array_index k) kvs)
     @ filter (\<lambda>(k, v). \<not> is_array_index k) kvs"

fun dec :: "nat \<Rightarrow> jstring" where
  "dec n = (if n < 10 then [0x30 + of_nat n] else dec (n div 10) @ [0x30 + of_nat (n mod 10)])"

declare dec.simps [simp del]

text \<open>\<open>Object.entries(v)\<close>\<close>

definition Object_entries :: "jsval \<Rightarrow> error + (jstring \<times> jsval) list" where
  "Object_entries v =
     (case v of
        JNull \<Rightarrow> Inl TypeError
      | JObj kvs \<Rightarrow> Inr (own_props kvs)
      | JArr xs \<Rightarrow> Inr (zip (map dec [0..<length xs]) xs)
      | JStr s \<Rightarrow> Inr (zip (map dec [0..<length s]) (map (\<lambda>c. JStr [c]) s))
      | _ \<Rightarrow> Inr [])"

section \<open>The file system\<close>

text \<open>
  The files of the disk, by path. Directories are not modelled: \<open>mkdirSync\<close> has no
  effect here and a write to any path succeeds. \<open>fs.writeFileSync\<close> accepts a string and
  throws a \<open>TypeError\<close> for any other JSON value (Node.js 14 and later).
\<close>

type_synonym fs = "jstring \<rightharpoonup> jstring"

definition writeFileSync :: "fs \<Rightarrow> jstring \<Rightarrow> jsval \<Rightarrow> error + fs" where
  "writeFileSync files path data =
     (case data of
        JStr s \<Rightarrow> Inr (files(path \<mapsto> s))
      | _ \<Rightarrow> Inl TypeError)"

section \<open>writeContractFiles\<close>

text \<open>One result of the explorer, at the fields the source reads; all are strings.\<close>

record raw_contract =
  ContractName :: jstring
  CompilerVersion :: jstring
  OptimizationUsed :: jstring
  Runs :: jstring
  EVMVersion :: jstring
  LicenseType :: jstring
  Proxy :: jstring
  Implementation :: jstring
  ConstructorArguments :: jstring
  SourceCode :: jstring
  ABI :: jstring

record contract_metadata =
  contractName :: jstring
  compilerVersion :: jstring
  optimizationUsed :: bool
  runs :: jstring
  evmVersion :: jstring
  licenseType :: jstring
  proxy :: bool
  implementation :: jstring
  constructorArguments :: jstring

record write_result =
  fileCount :: nat
  contractDir :: jstring
  metadata :: contract_metadata
  abi :: jsval
  fileList :: "jstring list"
  directoryName :: jstring

text \<open>\<open>fileData.content || fileData\<close>\<close>

definition entry_content :: "jsval \<Rightarrow> error + jsval" where
  "entry_content fileData =
     (case js_get fileData (js ''content'') of
        Inl e \<Rightarrow> Inl e
      | Inr None \<Rightarrow> Inr fileData
      | Inr (Some content) \<Rightarrow> if truthy (Some content) then Inr content else Inr fileData)"

text \<open>
  The loop over \<open>Object.entries(sources)\<close>. \<open>join\<close> stands for \<open>path.join\<close>. An
  exception leaves the files written so far on the disk.
\<close>

fun write_entries ::
  "(jstring \<Rightarrow> jstring \<Rightarrow> jstring) \<Rightarrow> jstring \<Rightarrow> (jstring \<times> jsval) list \<Rightarrow> jstring list \<Rightarrow> fs
     \<Rightarrow> (error + jstring list) \<times> fs" where
  "write_entries join outputDir [] fileList' files = (Inr fileList', files)"
| "write_entries join outputDir ((filePath, fileData) # rest) fileList' files =
     (case entry_content fileData of
        Inl e \<Rightarrow> (Inl e, files)
      | Inr content \<Rightarrow>
          (case writeFileSync files (join outputDir filePath) content of
             Inl e \<Rightarrow> (Inl e, files)
           | Inr files' \<Rightarrow> write_entries join outputDir rest (fileList' @ [filePath]) files'))"

definition make_metadata :: "raw_contract \<Rightarrow> contract_metadata" where
  "make_metadata contractData =
     \<lparr> contractName = ContractName contractData,
       compilerVersion = CompilerVersion contractData,
       optimizationUsed = (OptimizationUsed contractData = js ''1''),
       runs = Runs contractData,
       evmVersion = EVMVersion contractData,
       licenseType = LicenseType contractData,
       proxy = (Proxy contractData = js ''1''),
       implementation = Implementation contractData,
       constructorArguments = ConstructorArguments contractData \<rparr>"

definition parse_abi :: "jstring \<Rightarrow> jsval" where
  "parse_abi a =
     (if a \<noteq> [] \<and> a \<noteq> js ''Contract source code not verified'' then
        (case json_parse a of Some v \<Rightarrow> v | None \<Rightarrow> JStr a)
      else JNull)"

definition writeContractFiles ::
  "(jstring \<Rightarrow> jstring \<Rightarrow> jstring) \<Rightarrow> raw_contract \<Rightarrow> jstring \<Rightarrow> jstring \<Rightarrow> fs
     \<Rightarrow> (error + write_result) \<times> fs" where
  "writeContractFiles join contractData outputDir contractName' files =
     (let actualContractName =
            (if contractName' \<noteq> [] then contractName'
             else if ContractName contractData \<noteq> [] then ContractName contractData
             else js ''UnknownContract'')
      in case parseSourceCode (SourceCode contractData) (Some (ContractName contractData)) of
           Inl e \<Rightarrow> (Inl e, files)
         | Inr sources \<Rightarrow>
             (case Object_entries sources of
                Inl e \<Rightarrow> (Inl e, files)
              | Inr entries \<Rightarrow>
                  (case write_entries join outputDir entries [] files of
                     (Inl e, files') \<Rightarrow> (Inl e, files')
                   | (Inr written, files') \<Rightarrow>
                       (Inr \<lparr> fileCount = length written,
                              contractDir = outputDir,
                              metadata = make_metadata contractData,
                              abi = parse_abi (ABI contractData),
                              fileList = written,
                              directoryName = actualContractName \<rparr>,
                        files'))))"

section \<open>\<open>JSON.stringify\<close>\<close>

text \<open>
  \<open>JSON.stringify(v, null, 2)\<close> on the values of \<open>jsval\<close>. A number is written as its
  lexeme. A lone surrogate and a control character are written as a \<open>\uXXXX\<close> escape.
\<close>

definition hex_digit :: "nat \<Rightarrow> 16 word" where
  "hex_digit n = (if n < 10 then 0x30 + of_nat n else 0x61 + of_nat (n - 10))"

definition unicode_escape :: "16 word \<Rightarrow> jstring" where
  "unicode_escape c =
     [0x5C, ch CHR ''u'', hex_digit (unat c div 4096 mod 16), hex_digit (unat c div 256 mod 16),
      hex_digit (unat c div 16 mod 16), hex_digit (unat c mod 16)]"

definition is_high_surrogate :: "16 word \<Rightarrow> bool" where
  "is_high_surrogate c = (0xD800 \<le> c \<and> c \<le> 0xDBFF)"

definition is_low_surrogate :: "16 word \<Rightarrow> bool" where
  "is_low_surrogate c = (0xDC00 \<le> c \<and> c \<le> 0xDFFF)"

fun quote_units :: "jstring \<Rightarrow> jstring" where
  "quote_units [] = []"
| "quote_units (c # cs) =
     (if c = 0x22 then [0x5C, 0x22] @ quote_units cs
      else if c = 0x5C then [0x5C, 0x5C] @ quote_units cs
      else if c = 0x08 then [0x5C, ch CHR ''b''] @ quote_units cs
      else if c = 0x09 then [0x5C, ch CHR ''t''] @ quote_units cs
      else if c = 0x0A then [0x5C, ch CHR ''n''] @ quote_units cs
      else if c = 0x0C then [0x5C, ch CHR ''f''] @ quote_units cs
      else if c = 0x0D then [0x5C, ch CHR ''r''] @ quote_units cs
      else if c < 0x20 then unicode_escape c @ quote_units cs
      else if is_high_surrogate c then
        (case cs of
           [] \<Rightarrow> unicode_escape c
         | d # ds \<Rightarrow>
             if is_low_surrogate d then c # d # quote_units ds
             else unicode_escape c @ quote_units cs)
      else if is_low_surrogate c then unicode_escape c @ quote_units cs
      else c # quote_units cs)"

definition quote :: "jstring \<Rightarrow> jstring" where
  "quote s = [0x22] @ quote_units s @ [0x22]"

fun join_with :: "jstring \<Rightarrow> jstring list \<Rightarrow> jstring" where
  "join_with sep [] = []"
| "join_with sep [x] = x"
| "join_with sep (x # y # ys) = x @ sep @ join_with sep (y # ys)"

definition wrap :: "jstring \<Rightarrow> jstring \<Rightarrow> jstring \<Rightarrow> jstring list \<Rightarrow> jstring" where
  "wrap ind opening closing partial =
     (if partial = [] then opening @ closing
      else opening @ [0x0A] @ ind @ js ''  ''
           @ join_with (js '','' @ [0x0A] @ ind @ js ''  '') partial
           @ [0x0A] @ ind @ closing)"

fun stringify :: "jstring \<Rightarrow> jsval \<Rightarrow> jstring"
  and stringify_elems :: "jstring \<Rightarrow> jsval list \<Rightarrow> jstring list"
  and stringify_members :: "jstring \<Rightarrow> (jstring \<times> jsval) list \<Rightarrow> (jstring \<times> jstring) list" where
  "stringify ind JNull = js ''null''"
| "stringify ind (JBool b) = (if b then js ''true'' else js ''false'')"
| "stringify ind (JNum l) = l"
| "stringify ind (JStr s) = quote s"
| "stringify ind (JArr xs) = wrap ind (js ''['') (js '']'') (stringify_elems (ind @ js ''  '') xs)"
| "stringify ind (JObj kvs) =
     wrap ind (js ''{'') (js ''}'')
       (map (\<lambda>(k, s). quote k @ js '': '' @ s) (own_props (stringify_members (ind @ js ''  '') kvs)))"
| "stringify_elems ind [] = []"
| "stringify_elems ind (x # xs) = stringify ind x # stringify_elems ind xs"
| "stringify_members ind [] = []"
| "stringify_members ind ((k, v) # kvs) = (k, stringify ind v) # stringify_members ind kvs"

definition JSON_stringify :: "jsval \<Rightarrow> jstring" where
  "JSON_stringify v = stringify [] v"

section \<open>saveResults\<close>

text \<open>
  The assignment \<open>o[k] = v\<close> of an object \<open>v\<close>, in non-strict code. On an object it
  defines or replaces the own property, except for the key \<open>__proto__\<close> when the
  object has no own property of that name: the assignment then replaces the prototype
  and leaves the own properties as they are. On \<open>null\<close> it throws; on a
  string, number or boolean it has no effect. On an array an index stores an element
  (the holes before it are written \<open>null\<close>, as \<open>JSON.stringify\<close> prints them),
  \<open>length\<close> throws a \<open>RangeError\<close>, and any other key is a property that
  \<open>JSON.stringify\<close> does not print.
\<close>

definition js_set :: "jsval \<Rightarrow> jstring \<Rightarrow> jsval \<Rightarrow> error + jsval" where
  "js_set obj k v =
     (case obj of
        JNull \<Rightarrow> Inl TypeError
      | JObj kvs \<Rightarrow>
          Inr (JObj (if k = js ''__proto__'' \<and> map_of kvs k = None then kvs
                     else obj_define kvs k v))
      | JArr xs \<Rightarrow>
          if is_array_index k then
            (if digits_val k < length xs then Inr (JArr (xs[digits_val k := v]))
             else Inr (JArr (xs @ replicate (digits_val k - length xs) JNull @ [v])))
          else if k = js ''length'' then Inl RangeError
          else Inr obj
      | _ \<Rightarrow> Inr obj)"

text \<open>The metadata object, as it is serialised into the manifest.\<close>

definition metadata_js :: "contract_metadata \<Rightarrow> jsval" where
  "metadata_js m =
     JObj [(js ''contractName'', JStr (contractName m)),
           (js ''compilerVersion'', JStr (compilerVersion m)),
           (js ''optimizationUsed'', JBool (optimizationUsed m)),
           (js ''runs'', JStr (runs m)),
           (js ''evmVersion'', JStr (evmVersion m)),
           (js ''licenseType'', JStr (licenseType m)),
           (js ''proxy'', JBool (proxy m)),
           (js ''implementation'', JStr (implementation m)),
           (js ''constructorArguments'', JStr (constructorArguments m))]"

text \<open>
  The entry built at lines 245-253. The argument \<open>contractResults\<close> of the source is
  \<open>{address, ...result}\<close>: the model passes the address and the result side by side.
  \<open>now\<close> is the value of \<open>new Date().toISOString()\<close>.
\<close>

definition manifest_entry :: "jstring \<Rightarrow> write_result \<Rightarrow> jstring \<Rightarrow> jsval" where
  "manifest_entry address r now =
     JObj [(js ''address'', JStr address),
           (js ''contractName'', JStr (contractName (metadata r))),
           (js ''directory'', JStr (directoryName r)),
           (js ''files'', JArr (map JStr (fileList r))),
           (js ''metadata'', metadata_js (metadata r)),
           (js ''abi'', abi r),
           (js ''fetchedAt'', JStr now)]"

text \<open>Lines 231-242: the manifest read from the disk, or the empty object.\<close>

definition load_results :: "fs \<Rightarrow> jstring \<Rightarrow> jsval" where
  "load_results files resultsPath =
     (case files resultsPath of
        None \<Rightarrow> JObj []
      | Some existing \<Rightarrow> (case json_parse existing of None \<Rightarrow> JObj [] | Some v \<Rightarrow> v))"

text \<open>Lines 244-253: \<open>allResults[contractResults.address] = {...}\<close>.\<close>

definition upsert :: "jsval \<Rightarrow> jstring \<Rightarrow> write_result \<Rightarrow> jstring \<Rightarrow> error + jsval" where
  "upsert allResults address r now = js_set allResults address (manifest_entry address r now)"

definition saveResults ::
  "(jstring \<Rightarrow> jstring \<Rightarrow> jstring) \<Rightarrow> jstring \<Rightarrow> jstring \<Rightarrow> jstring \<Rightarrow> write_result \<Rightarrow> fs
     \<Rightarrow> (error + unit) \<times> fs" where
  "saveResults join now outputDir address r files =
     (let resultsPath = join outputDir (js ''results.json'')
      in case upsert (load_results files resultsPath) address r now of
           Inl e \<Rightarrow> (Inl e, files)
         | Inr allResults \<Rightarrow>
             (case writeFileSync files resultsPath (JStr (JSON_stringify allResults)) of
                Inl e \<Rightarrow> (Inl e, files)
              | Inr files' \<Rightarrow> (Inr (), files')))"

section \<open>fetchContract and main\<close>

text \<open>
  The reply of the explorer after \<open>httpsGet\<close> and \<open>JSON.parse\<close>, at the fields the
  source reads. \<open>request\<close> stands for the two together: it maps the URL to the decoded
  reply, or to the error either of them throws.
\<close>

record api_reply =
  status :: jstring
  message :: jstring
  result :: "raw_contract list"

definition fetchContract ::
  "(jstring \<Rightarrow> error + api_reply) \<Rightarrow> jstring \<Rightarrow> jstring \<Rightarrow> jstring \<Rightarrow> jstring
     \<Rightarrow> error + raw_contract" where
  "fetchContract request apiUrl' address apiKey' chainId' =
     (let url = apiUrl' @ js ''?chainid='' @ chainId'
                @ js ''&module=contract&action=getsourcecode&address='' @ address
                @ js ''&apikey='' @ apiKey'
      in case request url of
           Inl e \<Rightarrow> Inl e
         | Inr data \<Rightarrow>
             if status data \<noteq> js ''1'' then Inl API_Error
             else (case result data of
                     [] \<Rightarrow> Inl No_contract_data
                   | r # _ \<Rightarrow> Inr r))"

record config =
  apiKey :: jstring
  address :: jstring
  apiUrl :: jstring
  chainId :: jstring
  outputDir :: jstring

text \<open>
  What a run leaves behind: how it ended (\<open>Inl e\<close> is \<open>process.exit(1)\<close> after the
  error \<open>e\<close>), the disk, and the history of the completed \<open>saveResults\<close> calls, each
  with its address and the result it was given.
\<close>

record run_result =
  outcome :: "error + unit"
  disk :: fs
  saved :: "(jstring \<times> write_result) list"

text \<open>
  The two calls \<open>main\<close> makes for each record (lines 289-296, 307-313, 325-331):
  \<open>writeContractFiles\<close>, then \<open>saveResults\<close> with the address and its result.
\<close>

definition write_and_save ::
  "(jstring \<Rightarrow> jstring \<Rightarrow> jstring) \<Rightarrow> jstring \<Rightarrow> jstring \<Rightarrow> raw_contract \<Rightarrow> jstring \<Rightarrow> jstring \<Rightarrow> fs
     \<Rightarrow> (error + write_result) \<times> fs" where
  "write_and_save join now out contractData label addr files =
     (case writeContractFiles join contractData out label files of
        (Inl e, files') \<Rightarrow> (Inl e, files')
      | (Inr r, files') \<Rightarrow>
          (case saveResults join now out addr r files' of
             (Inl e, files'') \<Rightarrow> (Inl e, files'')
           | (Inr u, files'') \<Rightarrow> (Inr r, files'')))"

text \<open>
  \<open>request n\<close> answers the \<open>n\<close>-th request of the run and \<open>clock n\<close> is the \<open>n\<close>-th
  reading of the clock. Every exception inside the \<open>try\<close> ends the run with exit
  status 1 and leaves the disk as it is at that moment.
\<close>

definition main ::
  "(jstring \<Rightarrow> jstring \<Rightarrow> jstring) \<Rightarrow> (nat \<Rightarrow> jstring \<Rightarrow> error + api_reply) \<Rightarrow> (nat \<Rightarrow> jstring)
     \<Rightarrow> config \<Rightarrow> fs \<Rightarrow> run_result" where
  "main join request clock cfg files =
     (if address cfg = [] then \<lparr> outcome = Inl Missing_address, disk = files, saved = [] \<rparr>
      else
        case fetchContract (request 0) (apiUrl cfg) (address cfg) (apiKey cfg) (chainId cfg) of
          Inl e \<Rightarrow> \<lparr> outcome = Inl e, disk = files, saved = [] \<rparr>
        | Inr contractData \<Rightarrow>
            let originalAddress = address cfg
            in if Proxy contractData = js ''1'' \<and> Implementation contractData \<noteq> [] then
                 (case write_and_save join (clock 0) (outputDir cfg) contractData
                         (ContractName contractData @ js ''_Proxy'') originalAddress files of
                    (Inl e, files1) \<Rightarrow> \<lparr> outcome = Inl e, disk = files1, saved = [] \<rparr>
                  | (Inr proxyResult, files1) \<Rightarrow>
                      let implAddress = Implementation contractData
                      in (case fetchContract (request 1) (apiUrl cfg) implAddress (apiKey cfg)
                                 (chainId cfg) of
                            Inl e \<Rightarrow>
                              \<lparr> outcome = Inl e, disk = files1,
                                saved = [(originalAddress, proxyResult)] \<rparr>
                          | Inr implData \<Rightarrow>
                              (case write_and_save join (clock 1) (outputDir cfg) implData
                                      (ContractName implData) implAddress files1 of
                                 (Inl e, files2) \<Rightarrow>
                                   \<lparr> outcome = Inl e, disk = files2,
                                     saved = [(originalAddress, proxyResult)] \<rparr>
                               | (Inr r, files2) \<Rightarrow>
                                   \<lparr> outcome = Inr (), disk = files2,
                                     saved = [(originalAddress, proxyResult), (implAddress, r)] \<rparr>)))
               else
                 (case write_and_save join (clock 0) (outputDir cfg) contractData
                         (ContractName contractData) originalAddress files of
                    (Inl e, files1) \<Rightarrow> \<lparr> outcome = Inl e, disk = files1, saved = [] \<rparr>
                  | (Inr r, files1) \<Rightarrow>
                      \<lparr> outcome = Inr (), disk = files1, saved = [(originalAddress, r)] \<rparr>))"

section \<open>Auxiliary definitions\<close>

text \<open>
  A stack of frames whose outermost container is an object, and the parser states that
  can only end with an object.
\<close>

fun obj_rooted :: "frame list \<Rightarrow> bool" where
  "obj_rooted [] = False"
| "obj_rooted [FObj kvs k] = True"
| "obj_rooted [FArr xs] = False"
| "obj_rooted (f # g # fs) = obj_rooted (g # fs)"

fun obj_state :: "pstate \<Rightarrow> bool" where
  "obj_state (SVal fs) = obj_rooted fs"
| "obj_state (SArr0 fs) = obj_rooted fs"
| "obj_state (SArrNext xs fs) = obj_rooted fs"
| "obj_state (SObj0 fs) = (fs = [] \<or> obj_rooted fs)"
| "obj_state (SKey kvs fs) = (fs = [] \<or> obj_rooted fs)"
| "obj_state (SColon kvs k fs) = (fs = [] \<or> obj_rooted fs)"
| "obj_state (SObjNext kvs fs) = (fs = [] \<or> obj_rooted fs)"
| "obj_state (SDone v) = (\<exists>kvs. v = JObj kvs)"

text \<open>
  Examples for the closed theorems: a \<open>path.join\<close> that puts a slash between its
  arguments, contract records with a one-file source, a network that answers the first
  request with one record and the second with another record or an error, a clock, and
  a configuration.
\<close>

definition example_join :: "jstring \<Rightarrow> jstring \<Rightarrow> jstring" where
  "example_join dir p = dir @ js ''/'' @ p"

definition example_result :: write_result where
  "example_result =
     \<lparr> fileCount = 1, contractDir = js ''out'',
       metadata = \<lparr> contractName = js ''Foo'', compilerVersion = js ''v0.8.20'',
                    optimizationUsed = True, runs = js ''200'', evmVersion = js ''Default'',
                    licenseType = js ''MIT'', proxy = False, implementation = [],
                    constructorArguments = [] \<rparr>,
       abi = JArr [], fileList = [js ''Foo.sol''], directoryName = js ''Foo'' \<rparr>"

text \<open>
  What \<open>writeContractFiles\<close> returns for a record whose source is not structured.
\<close>

definition single_file_result :: "jstring \<Rightarrow> raw_contract \<Rightarrow> jstring \<Rightarrow> write_result" where
  "single_file_result out cd label =
     \<lparr> fileCount = 1, contractDir = out, metadata = make_metadata cd,
       abi = parse_abi (ABI cd), fileList = [fileName (Some (ContractName cd))],
       directoryName =
         (if label \<noteq> [] then label
          else if ContractName cd \<noteq> [] then ContractName cd else js ''UnknownContract'') \<rparr>"

definition example_contract :: "jstring \<Rightarrow> jstring \<Rightarrow> jstring \<Rightarrow> jstring \<Rightarrow> raw_contract" where
  "example_contract name isProxy impl source =
     \<lparr> ContractName = name, CompilerVersion = js ''v0.8.20'', OptimizationUsed = js ''1'',
       Runs = js ''200'', EVMVersion = js ''Default'', LicenseType = js ''MIT'',
       Proxy = isProxy, Implementation = impl, ConstructorArguments = [],
       SourceCode = source, ABI = js ''[]'' \<rparr>"

definition example_proxy :: raw_contract where
  "example_proxy = example_contract (js ''P'') (js ''1'') (js ''0xI'') (js ''contract P {}'')"

definition example_impl :: raw_contract where
  "example_impl = example_contract (js ''Impl'') (js ''0'') [] (js ''contract Impl {}'')"


definition example_request ::
  "raw_contract \<Rightarrow> error + raw_contract \<Rightarrow> nat \<Rightarrow> jstring \<Rightarrow> error + api_reply" where
  "example_request first second n url =
     (if n = 0 then Inr \<lparr> status = js ''1'', message = js ''OK'', result = [first] \<rparr>
      else case second of
             Inl e \<Rightarrow> Inl e
           | Inr c \<Rightarrow> Inr \<lparr> status = js ''1'', message = js ''OK'', result = [c] \<rparr>)"

definition example_clock :: "nat \<Rightarrow> jstring" where
  "example_clock n = js ''2026-01-01T00:00:0'' @ dec n @ js ''.000Z''"

definition example_config :: config where
  "example_config =
     \<lparr> apiKey = js ''KEY'', address = js ''0xP'', apiUrl = js ''https://api.etherscan.io/v2/api'',
       chainId = js ''1'', outputDir = js ''out'' \<rparr>"

text \<open>
  An object whose own keys are distinct, and the parser states that hold only such
  objects at their top level.
\<close>

fun top_distinct :: "jsval \<Rightarrow> bool" where
  "top_distinct (JObj kvs) = distinct (map fst kvs)"
| "top_distinct v = True"

fun frame_distinct :: "frame \<Rightarrow> bool" where
  "frame_distinct (FObj kvs k) = distinct (map fst kvs)"
| "frame_distinct (FArr xs) = True"

fun state_distinct :: "pstate \<Rightarrow> bool" where
  "state_distinct (SVal fs) = list_all frame_distinct fs"
| "state_distinct (SArr0 fs) = list_all frame_distinct fs"
| "state_distinct (SObj0 fs) = list_all frame_distinct fs"
| "state_distinct (SKey kvs fs) = (distinct (map fst kvs) \<and> list_all frame_distinct fs)"
| "state_distinct (SColon kvs k fs) = (distinct (map fst kvs) \<and> list_all frame_distinct fs)"
| "state_distinct (SArrNext xs fs) = list_all frame_distinct fs"
| "state_distinct (SObjNext kvs fs) = (distinct (map fst kvs) \<and> list_all frame_distinct fs)"
| "state_distinct (SDone v) = top_distinct v"

section \<open>Lemmas\<close>

lemma slice_1_neg1_butlast_tl: "slice_1_neg1 s = butlast (tl s)"
  by (cases s) (simp_all add: slice_1_neg1_def butlast_conv_take)

lemma startsWith_brace: "startsWith s (js ''{'') \<longleftrightarrow> (\<exists>r. s = ch CHR ''{'' # r)"
  by (cases s) (auto simp: startsWith_def js_def)

lemma startsWith_brace2:
  "startsWith s (js ''{{'') \<longleftrightarrow> (\<exists>r. s = ch CHR ''{'' # ch CHR ''{'' # r)"
proof (cases s)
  case Nil
  then show ?thesis by (simp add: startsWith_def js_def)
next
  case (Cons a t)
  then show ?thesis by (cases t) (auto simp: startsWith_def js_def)
qed

lemma json_parse_two_braces: "json_parse (ch CHR ''{'' # ch CHR ''{'' # r) = None"
proof (cases "lex r")
  case None
  then show ?thesis by (simp add: json_parse_def is_ws_def)
next
  case (Some ts)
  then show ?thesis by (simp add: json_parse_def is_ws_def)
qed

lemma json_parse_empty: "json_parse [] = None"
  by (simp add: json_parse_def)

lemma json_parse_not_double:
  "json_parse t = Some j \<Longrightarrow> \<not> startsWith t (js ''{{'')"
  using json_parse_two_braces by (auto simp: startsWith_brace2)

lemma obj_rooted_Cons: "fs = [] \<or> obj_rooted fs \<Longrightarrow> obj_rooted (FObj kvs k # fs)"
  by (cases fs) auto

lemma obj_rooted_Cons': "obj_rooted fs \<Longrightarrow> obj_rooted (f # fs)"
  by (cases fs) auto

lemma deliver_rooted: "obj_rooted fs \<Longrightarrow> obj_state (deliver v fs)"
proof (cases fs)
  case Nil
  then show "obj_rooted fs \<Longrightarrow> ?thesis" by simp
next
  case (Cons f fs')
  then show "obj_rooted fs \<Longrightarrow> ?thesis"
    by (cases f; cases fs') auto
qed

lemma deliver_obj: "fs = [] \<or> obj_rooted fs \<Longrightarrow> obj_state (deliver (JObj kvs) fs)"
  using deliver_rooted by (cases fs) auto

lemma value_step_rooted: "obj_rooted fs \<Longrightarrow> value_step fs t = Some st \<Longrightarrow> obj_state st"
  using deliver_rooted by (cases t) auto

lemma step_obj_state: "obj_state st \<Longrightarrow> step st t = Some st' \<Longrightarrow> obj_state st'"
proof (cases st)
  case (SVal fs)
  then show "obj_state st \<Longrightarrow> step st t = Some st' \<Longrightarrow> ?thesis"
    by (auto dest: value_step_rooted)
next
  case (SArr0 fs)
  then show "obj_state st \<Longrightarrow> step st t = Some st' \<Longrightarrow> ?thesis"
    by (auto split: if_splits dest: value_step_rooted [OF obj_rooted_Cons'] intro: deliver_rooted)
next
  case (SObj0 fs)
  then show "obj_state st \<Longrightarrow> step st t = Some st' \<Longrightarrow> ?thesis"
    by (cases t) (auto intro: deliver_obj)
next
  case (SKey kvs fs)
  then show "obj_state st \<Longrightarrow> step st t = Some st' \<Longrightarrow> ?thesis"
    by (cases t) auto
next
  case (SColon kvs k fs)
  then show "obj_state st \<Longrightarrow> step st t = Some st' \<Longrightarrow> ?thesis"
    by (auto split: if_splits intro: obj_rooted_Cons)
next
  case (SArrNext xs fs)
  then show "obj_state st \<Longrightarrow> step st t = Some st' \<Longrightarrow> ?thesis"
    by (cases t) (auto intro: deliver_rooted obj_rooted_Cons')
next
  case (SObjNext kvs fs)
  then show "obj_state st \<Longrightarrow> step st t = Some st' \<Longrightarrow> ?thesis"
    by (cases t) (auto intro: deliver_obj)
next
  case (SDone v)
  then show "obj_state st \<Longrightarrow> step st t = Some st' \<Longrightarrow> ?thesis" by simp
qed

lemma run_obj_state: "obj_state st \<Longrightarrow> run st ts = Some j \<Longrightarrow> \<exists>kvs. j = JObj kvs"
proof (induction ts arbitrary: st)
  case Nil
  then show ?case by (cases st) auto
next
  case (Cons t ts)
  then show ?case
    by (auto split: option.splits dest: step_obj_state)
qed

lemma json_parse_brace_obj:
  assumes "json_parse (0x7B # r) = Some j"
  shows "\<exists>kvs. j = JObj kvs"
proof -
  from assms obtain ts where "lex r = Some ts" and "run (SObj0 []) ts = Some j"
    by (auto simp: json_parse_def is_ws_def split: option.splits)
  then show ?thesis using run_obj_state [of "SObj0 []" ts j] by simp
qed

lemma parseSourceCode_fallback:
  assumes "startsWith sourceCode (js ''{'')"
    and "json_parse (if startsWith sourceCode (js ''{{'') then slice_1_neg1 sourceCode
                     else sourceCode) = None"
  shows "parseSourceCode sourceCode name = Inr (single_file name sourceCode)"
proof -
  from assms(1) have "sourceCode \<noteq> []" by (auto simp: startsWith_brace)
  with assms show ?thesis by (simp add: parseSourceCode_def)
qed

lemma own_props_single: "own_props [kv] = [kv]"
  by (cases kv) (simp add: own_props_def)

lemma Object_entries_single_file:
  "Object_entries (single_file name sourceCode) =
     Inr [(fileName name, JObj [(js ''content'', JStr sourceCode)])]"
  by (simp add: Object_entries_def single_file_def own_props_single)


lemma empty_content_parse:
  \<open>parseSourceCode (js ''{"sources":{"a.sol":{"content":""}}}'') name =
     Inr (JObj [(js ''a.sol'', JObj [(js ''content'', JStr [])])])\<close>
  by (simp add: parseSourceCode_def startsWith_def js_get_def js_def json_parse_def
      is_ws_def is_digit_def)

lemma map_of_obj_define: "map_of (obj_define kvs k v) = (map_of kvs)(k \<mapsto> v)"
  by (induction kvs) (auto simp: fun_eq_iff)

lemma keys_obj_define_old:
  "k \<in> fst ` set kvs \<Longrightarrow> map fst (obj_define kvs k v) = map fst kvs"
  by (induction kvs) force+

lemma keys_obj_define_new:
  "k \<notin> fst ` set kvs \<Longrightarrow> map fst (obj_define kvs k v) = map fst kvs @ [k]"
  by (induction kvs) force+

lemma keys_obj_define:
  "map fst (obj_define kvs k v) = (if k \<in> fst ` set kvs then map fst kvs else map fst kvs @ [k])"
  by (simp add: keys_obj_define_old keys_obj_define_new)

lemma distinct_obj_define:
  "distinct (map fst kvs) \<Longrightarrow> distinct (map fst (obj_define kvs k v))"
  by (simp add: keys_obj_define)

lemma key_in_obj_define: "k \<in> fst ` set (obj_define kvs k v)"
proof -
  have "map_of (obj_define kvs k v) k \<noteq> None"
    by (simp add: map_of_obj_define)
  then show ?thesis by (metis map_of_eq_None_iff)
qed

lemma obj_define_twice:
  "map fst (obj_define (obj_define kvs k v) k w) = map fst (obj_define kvs k v)"
  using key_in_obj_define [of k kvs v] by (simp add: keys_obj_define_old)

lemma count_key_distinct:
  "distinct (map fst kvs) \<Longrightarrow> k \<in> fst ` set kvs \<Longrightarrow> length (filter (\<lambda>kv. fst kv = k) kvs) = 1"
proof (induction kvs)
  case Nil
  then show ?case by simp
next
  case (Cons a kvs)
  show ?case
  proof (cases "fst a = k")
    case True
    with Cons.prems have "k \<notin> fst ` set kvs"
      by simp
    then have "\<forall>x \<in> set kvs. fst x \<noteq> k"
      by force
    then have "filter (\<lambda>kv. fst kv = k) kvs = []"
      by (simp add: filter_empty_conv)
    with True show ?thesis by simp
  next
    case False
    with Cons show ?thesis by auto
  qed
qed

lemma upsert_object:
  "addr \<noteq> js ''__proto__'' \<Longrightarrow>
     upsert (JObj kvs) addr r now = Inr (JObj (obj_define kvs addr (manifest_entry addr r now)))"
  by (simp add: upsert_def js_set_def)

lemma load_results_unparsable:
  "files p = Some existing \<Longrightarrow> json_parse existing = None \<Longrightarrow> load_results files p = JObj []"
  by (simp add: load_results_def)

lemma writeFileSync_Inr:
  "writeFileSync files p d = Inr files' \<Longrightarrow> \<exists>s. d = JStr s \<and> files' = files(p \<mapsto> s)"
  by (cases d) (auto simp: writeFileSync_def)

lemma write_entries_Inr:
  "write_entries join out es acc files = (Inr fl, files') \<Longrightarrow>
     fl = acc @ map fst es
     \<and> (\<forall>p \<in> set (map fst es). join out p \<in> dom files')
     \<and> dom files \<subseteq> dom files'"
proof (induction es arbitrary: acc files)
  case Nil
  then show ?case by simp
next
  case (Cons e es)
  obtain p d where e: "e = (p, d)" by (cases e)
  from Cons.prems e obtain c where c: "entry_content d = Inr c"
    by (cases "entry_content d") auto
  from Cons.prems e c obtain files1 where
    w: "writeFileSync files (join out p) c = Inr files1"
    by (cases "writeFileSync files (join out p) c") auto
  from Cons.prems e c w
  have rest: "write_entries join out es (acc @ [p]) files1 = (Inr fl, files')"
    by simp
  from w obtain s where files1: "files1 = files(join out p \<mapsto> s)"
    by (auto dest: writeFileSync_Inr)
  from Cons.IH [OF rest]
  have fl: "fl = (acc @ [p]) @ map fst es"
    and written: "\<forall>q \<in> set (map fst es). join out q \<in> dom files'"
    and mono: "dom files1 \<subseteq> dom files'"
    by auto
  from files1 have here: "join out p \<in> dom files1" and grow: "dom files \<subseteq> dom files1"
    by auto
  from fl e have "fl = acc @ map fst (e # es)"
    by simp
  moreover from written here mono e
  have "\<forall>q \<in> set (map fst (e # es)). join out q \<in> dom files'"
    by auto
  moreover from grow mono have "dom files \<subseteq> dom files'"
    by (rule subset_trans)
  ultimately show ?case by blast
qed

lemma writeContractFiles_Inr:
  assumes "writeContractFiles join cd out label files = (Inr r, files')"
  shows "metadata r = make_metadata cd
         \<and> abi r = parse_abi (ABI cd)
         \<and> contractDir r = out
         \<and> fileCount r = length (fileList r)
         \<and> directoryName r =
             (if label \<noteq> [] then label
              else if ContractName cd \<noteq> [] then ContractName cd else js ''UnknownContract'')
         \<and> (\<forall>p \<in> set (fileList r). join out p \<in> dom files')
         \<and> dom files \<subseteq> dom files'"
proof -
  from assms obtain sources where
    s: "parseSourceCode (SourceCode cd) (Some (ContractName cd)) = Inr sources"
    by (cases "parseSourceCode (SourceCode cd) (Some (ContractName cd))")
      (auto simp: writeContractFiles_def)
  from assms s obtain es where es: "Object_entries sources = Inr es"
    by (cases "Object_entries sources") (auto simp: writeContractFiles_def)
  from assms s es obtain fl where
    w: "write_entries join out es [] files = (Inr fl, files')"
    and r: "r = \<lparr> fileCount = length fl, contractDir = out, metadata = make_metadata cd,
                  abi = parse_abi (ABI cd), fileList = fl,
                  directoryName =
                    (if label \<noteq> [] then label
                     else if ContractName cd \<noteq> [] then ContractName cd
                     else js ''UnknownContract'') \<rparr>"
    by (cases "write_entries join out es [] files")
      (auto simp: writeContractFiles_def split: sum.splits)
  from write_entries_Inr [OF w] r show ?thesis
    by simp
qed

lemma saveResults_Inr:
  assumes "saveResults join now out addr r files = (Inr u, files')"
  shows "\<exists>m. upsert (load_results files (join out (js ''results.json''))) addr r now = Inr m
             \<and> files' = files(join out (js ''results.json'') \<mapsto> JSON_stringify m)"
  using assms
  by (auto simp: saveResults_def writeFileSync_def Let_def split: sum.splits)

lemma write_and_save_Inr:
  assumes "write_and_save join now out cd label addr files = (Inr r, files2)"
  shows "\<exists>files1. writeContractFiles join cd out label files = (Inr r, files1)
                  \<and> saveResults join now out addr r files1 = (Inr (), files2)"
  using assms
  by (auto simp: write_and_save_def split: prod.splits sum.splits)

lemma main_success:
  assumes "outcome (main join request clock cfg files) = Inr ()"
  shows "\<exists>cd. fetchContract (request 0) (apiUrl cfg) (address cfg) (apiKey cfg) (chainId cfg) = Inr cd
           \<and> (if Proxy cd = js ''1'' \<and> Implementation cd \<noteq> [] then
                 \<exists>r1 files1 impl r2 files2.
                   write_and_save join (clock 0) (outputDir cfg) cd
                       (ContractName cd @ js ''_Proxy'') (address cfg) files = (Inr r1, files1)
                   \<and> fetchContract (request 1) (apiUrl cfg) (Implementation cd) (apiKey cfg)
                         (chainId cfg) = Inr impl
                   \<and> write_and_save join (clock 1) (outputDir cfg) impl (ContractName impl)
                         (Implementation cd) files1 = (Inr r2, files2)
                   \<and> main join request clock cfg files =
                         \<lparr> outcome = Inr (), disk = files2,
                           saved = [(address cfg, r1), (Implementation cd, r2)] \<rparr>
               else
                 \<exists>r files1.
                   write_and_save join (clock 0) (outputDir cfg) cd (ContractName cd)
                       (address cfg) files = (Inr r, files1)
                   \<and> main join request clock cfg files =
                         \<lparr> outcome = Inr (), disk = files1, saved = [(address cfg, r)] \<rparr>)"
proof -
  from assms have a: "address cfg \<noteq> []"
    by (auto simp: main_def split: if_splits)
  from assms a obtain cd where
    f0: "fetchContract (request 0) (apiUrl cfg) (address cfg) (apiKey cfg) (chainId cfg) = Inr cd"
    by (cases "fetchContract (request 0) (apiUrl cfg) (address cfg) (apiKey cfg) (chainId cfg)")
      (auto simp: main_def)
  show ?thesis
  proof (cases "Proxy cd = js ''1'' \<and> Implementation cd \<noteq> []")
    case True
    with assms a f0 show ?thesis
      by (auto simp: main_def Let_def split: sum.splits prod.splits)
  next
    case False
    with assms a f0 show ?thesis
      by (auto simp: main_def Let_def split: sum.splits prod.splits)
  qed
qed


lemma upsert_object_cases:
  "upsert (JObj kvs) addr r now =
     Inr (JObj (if addr = js ''__proto__'' \<and> map_of kvs addr = None then kvs
                else obj_define kvs addr (manifest_entry addr r now)))"
  by (simp add: upsert_def js_set_def)

lemma fileName_not_results: "fileName n \<noteq> js ''results.json''"
proof -
  have "last (fileName n) = 0x6C"
    by (cases n) (simp_all add: fileName_def js_def)
  moreover have "last (js ''results.json'') = (0x6E :: 16 word)"
    by (simp add: js_def)
  ultimately show ?thesis by auto
qed

lemma example_join_inject: "example_join d p = example_join d q \<longleftrightarrow> p = q"
  by (simp add: example_join_def)

lemma writeContractFiles_plain:
  assumes "SourceCode cd \<noteq> []" and "\<not> startsWith (SourceCode cd) (js ''{'')"
  shows "writeContractFiles join cd out label files =
           (Inr (single_file_result out cd label),
            files(join out (fileName (Some (ContractName cd))) \<mapsto> SourceCode cd))"
proof -
  have p: "parseSourceCode (SourceCode cd) (Some (ContractName cd)) =
             Inr (single_file (Some (ContractName cd)) (SourceCode cd))"
    using assms by (simp add: parseSourceCode_def)
  have c: "entry_content (JObj [(js ''content'', JStr (SourceCode cd))]) = Inr (JStr (SourceCode cd))"
    using assms(1) by (simp add: entry_content_def js_get_def)
  show ?thesis
    by (simp add: writeContractFiles_def p Object_entries_single_file c writeFileSync_def
        single_file_result_def)
qed

lemma JSON_stringify_object_brace: "\<exists>rest. JSON_stringify (JObj kvs) = 0x7B # rest"
  by (simp add: JSON_stringify_def wrap_def js_def)

lemma load_results_absent: "files p = None \<Longrightarrow> load_results files p = JObj []"
  by (simp add: load_results_def)

lemma load_results_stringified:
  assumes "files p = Some (JSON_stringify (JObj kvs))"
  shows "\<exists>kvs'. load_results files p = JObj kvs'"
proof -
  obtain rest where r: "JSON_stringify (JObj kvs) = 0x7B # rest"
    using JSON_stringify_object_brace by blast
  show ?thesis
  proof (cases "json_parse (0x7B # rest)")
    case None
    with assms r show ?thesis by (simp add: load_results_def)
  next
    case (Some v)
    with json_parse_brace_obj obtain kvs' where "v = JObj kvs'" by blast
    with assms r Some show ?thesis by (simp add: load_results_def)
  qed
qed

lemma saveResults_object:
  assumes "load_results files (join out (js ''results.json'')) = JObj kvs"
  shows "saveResults join now out addr r files =
           (Inr (),
            files(join out (js ''results.json'') \<mapsto>
              JSON_stringify
                (JObj (if addr = js ''__proto__'' \<and> map_of kvs addr = None then kvs
                       else obj_define kvs addr (manifest_entry addr r now)))))"
  using assms by (simp add: saveResults_def upsert_object_cases writeFileSync_def)

lemma write_and_save_plain:
  assumes "SourceCode cd \<noteq> []" and "\<not> startsWith (SourceCode cd) (js ''{'')"
    and "files (example_join out (js ''results.json'')) = None
         \<or> (\<exists>kvs. files (example_join out (js ''results.json'')) = Some (JSON_stringify (JObj kvs)))"
  shows "\<exists>files' kvs'.
           write_and_save example_join now out cd label addr files =
             (Inr (single_file_result out cd label), files')
           \<and> files' (example_join out (js ''results.json'')) = Some (JSON_stringify (JObj kvs'))"
proof -
  let ?files1 = "files(example_join out (fileName (Some (ContractName cd))) \<mapsto> SourceCode cd)"
  have w: "writeContractFiles example_join cd out label files =
             (Inr (single_file_result out cd label), ?files1)"
    using assms(1,2) by (rule writeContractFiles_plain)
  have same: "?files1 (example_join out (js ''results.json'')) =
                files (example_join out (js ''results.json''))"
    using fileName_not_results [of "Some (ContractName cd)"]
    by (simp add: example_join_inject)
  from assms(3) same obtain kvs where
    l: "load_results ?files1 (example_join out (js ''results.json'')) = JObj kvs"
    using load_results_absent [of ?files1] load_results_stringified [of ?files1]
    by metis
  from saveResults_object [where join = example_join and out = out and files = ?files1
      and kvs = kvs and now = now and addr = addr and r = "single_file_result out cd label", OF l] w
  show ?thesis
    by (auto simp: write_and_save_def)
qed

lemma example_fetch_first:
  "fetchContract (example_request first second 0) u a k c = Inr first"
  by (simp add: fetchContract_def example_request_def js_def)

lemma example_fetch_second:
  "fetchContract (example_request first second (Suc 0)) u a k c = second"
  by (cases second) (simp_all add: fetchContract_def example_request_def js_def)

lemma example_proxy_run:
  assumes "address cfg \<noteq> []" and "Proxy first = js ''1''" and "Implementation first \<noteq> []"
    and "SourceCode first \<noteq> []" and "\<not> startsWith (SourceCode first) (js ''{'')"
    and "SourceCode impl \<noteq> []" and "\<not> startsWith (SourceCode impl) (js ''{'')"
    and "files (example_join (outputDir cfg) (js ''results.json'')) = None"
  shows "\<exists>files2.
           main example_join (example_request first (Inr impl)) clock cfg files =
             \<lparr> outcome = Inr (), disk = files2,
               saved = [(address cfg,
                         single_file_result (outputDir cfg) first (ContractName first @ js ''_Proxy'')),
                        (Implementation first,
                         single_file_result (outputDir cfg) impl (ContractName impl))] \<rparr>"
proof -
  from write_and_save_plain [OF assms(4,5), of files "outputDir cfg"] assms(8)
  obtain files1 kvs1 where
    w1: "write_and_save example_join (clock 0) (outputDir cfg) first
           (ContractName first @ js ''_Proxy'') (address cfg) files =
           (Inr (single_file_result (outputDir cfg) first (ContractName first @ js ''_Proxy'')), files1)"
    and m1: "files1 (example_join (outputDir cfg) (js ''results.json'')) =
               Some (JSON_stringify (JObj kvs1))"
    by blast
  from write_and_save_plain [OF assms(6,7), of files1 "outputDir cfg"] m1
  obtain files2 kvs2 where
    w2: "write_and_save example_join (clock (Suc 0)) (outputDir cfg) impl (ContractName impl)
           (Implementation first) files1 =
           (Inr (single_file_result (outputDir cfg) impl (ContractName impl)), files2)"
    by blast
  show ?thesis
    using assms(1-3) w1 w2
    by (simp add: main_def example_fetch_first example_fetch_second)
qed

lemma example_proxy_facts:
  "Proxy example_proxy = js ''1''" "Implementation example_proxy = js ''0xI''"
  "ContractName example_proxy = js ''P''" "SourceCode example_proxy = js ''contract P {}''"
  by (simp_all add: example_proxy_def example_contract_def)

lemma example_impl_facts:
  "ContractName example_impl = js ''Impl''" "SourceCode example_impl = js ''contract Impl {}''"
  "Proxy example_impl = js ''0''"
  by (simp_all add: example_impl_def example_contract_def)


lemma example_config_facts:
  "address example_config = js ''0xP''" "outputDir example_config = js ''out''"
  by (simp_all add: example_config_def)

lemma plain_sources:
  "js ''contract P {}'' \<noteq> []" "\<not> startsWith (js ''contract P {}'') (js ''{'')"
  "js ''contract Impl {}'' \<noteq> []" "\<not> startsWith (js ''contract Impl {}'') (js ''{'')"
  "js ''contract I {}'' \<noteq> []" "\<not> startsWith (js ''contract I {}'') (js ''{'')"
  by (simp_all add: js_def startsWith_def)

lemma deliver_distinct:
  "list_all frame_distinct fs \<Longrightarrow> top_distinct v \<Longrightarrow> state_distinct (deliver v fs)"
proof (cases fs)
  case Nil
  then show "top_distinct v \<Longrightarrow> ?thesis" by simp
next
  case (Cons f fs')
  then show "list_all frame_distinct fs \<Longrightarrow> ?thesis"
    by (cases f) (simp_all add: distinct_obj_define)
qed

lemma value_step_distinct:
  "list_all frame_distinct fs \<Longrightarrow> value_step fs t = Some st \<Longrightarrow> state_distinct st"
  by (cases t) (auto intro: deliver_distinct)

lemma step_distinct: "state_distinct st \<Longrightarrow> step st t = Some st' \<Longrightarrow> state_distinct st'"
proof (cases st)
  case (SVal fs)
  then show "state_distinct st \<Longrightarrow> step st t = Some st' \<Longrightarrow> ?thesis"
    by (auto dest: value_step_distinct)
next
  case (SArr0 fs)
  then show "state_distinct st \<Longrightarrow> step st t = Some st' \<Longrightarrow> ?thesis"
    by (auto split: if_splits intro: deliver_distinct
        dest: value_step_distinct [of "FArr [] # fs", rotated])
next
  case (SObj0 fs)
  then show "state_distinct st \<Longrightarrow> step st t = Some st' \<Longrightarrow> ?thesis"
    by (cases t) (auto intro: deliver_distinct)
next
  case (SKey kvs fs)
  then show "state_distinct st \<Longrightarrow> step st t = Some st' \<Longrightarrow> ?thesis"
    by (cases t) auto
next
  case (SColon kvs k fs)
  then show "state_distinct st \<Longrightarrow> step st t = Some st' \<Longrightarrow> ?thesis"
    by (auto split: if_splits)
next
  case (SArrNext xs fs)
  then show "state_distinct st \<Longrightarrow> step st t = Some st' \<Longrightarrow> ?thesis"
    by (cases t) (auto intro: deliver_distinct)
next
  case (SObjNext kvs fs)
  then show "state_distinct st \<Longrightarrow> step st t = Some st' \<Longrightarrow> ?thesis"
    by (cases t) (auto intro: deliver_distinct)
next
  case (SDone v)
  then show "state_distinct st \<Longrightarrow> step st t = Some st' \<Longrightarrow> ?thesis" by simp
qed

lemma run_distinct: "state_distinct st \<Longrightarrow> run st ts = Some v \<Longrightarrow> top_distinct v"
proof (induction ts arbitrary: st)
  case Nil
  then show ?case by (cases st) auto
next
  case (Cons t ts)
  then show ?case
    by (auto split: option.splits dest: step_distinct)
qed

lemma json_parse_distinct: "json_parse s = Some v \<Longrightarrow> top_distinct v"
  using run_distinct [of "SVal []"]
  by (auto simp: json_parse_def split: option.splits)

lemma load_results_distinct: "load_results files p = JObj kvs \<Longrightarrow> distinct (map fst kvs)"
  using json_parse_distinct [of _ "JObj kvs"]
  by (auto simp: load_results_def split: option.splits)

lemma upsert_keyed:
  assumes "upsert loaded a r now = Inr m" and "loaded = JObj kvs" and "a \<noteq> js ''__proto__''"
  shows "\<exists>kvs'. m = JObj kvs'
           \<and> map_of kvs' a = Some (manifest_entry a r now)
           \<and> (\<forall>b. b \<noteq> a \<longrightarrow> map_of kvs' b = map_of kvs b)"
proof -
  from assms have "m = JObj (obj_define kvs a (manifest_entry a r now))"
    by (simp add: upsert_object)
  then show ?thesis
    by (simp add: map_of_obj_define)
qed

lemma manifest_entry_address:
  "js_get (manifest_entry a r now) (js ''address'') = Inr (Some (JStr a))"
  by (simp add: manifest_entry_def js_get_def)

section \<open>The claims\<close>

subsection \<open>C1\<close>

text \<open>
  C1, as amended. For every non-empty source \<open>parseSourceCode\<close> returns a value without
  raising, and \<open>Object.entries\<close> of it is defined. It has at least one entry unless the
  source starts with \<open>{\<close> and its payload parses: the result is then the parsed object
  itself or its \<open>sources\<close> property, returned as parsed, which may have no entry.
\<close>

theorem C1_entries_unless_parsed_empty:
  assumes "sourceCode \<noteq> []"
  shows "\<exists>v es. parseSourceCode sourceCode name = Inr v \<and> Object_entries v = Inr es
           \<and> (es = [] \<longrightarrow>
                startsWith sourceCode (js ''{'')
                \<and> (\<exists>jsonData.
                      json_parse (if startsWith sourceCode (js ''{{'')
                                  then slice_1_neg1 sourceCode else sourceCode) = Some jsonData
                      \<and> (v = jsonData \<or> js_get jsonData (js ''sources'') = Inr (Some v))))"
proof (cases "startsWith sourceCode (js ''{'')")
  case False
  with assms have "parseSourceCode sourceCode name = Inr (single_file name sourceCode)"
    by (simp add: parseSourceCode_def)
  then show ?thesis by (simp add: Object_entries_single_file)
next
  case True
  let ?parsed = "if startsWith sourceCode (js ''{{'') then slice_1_neg1 sourceCode else sourceCode"
  show ?thesis
  proof (cases "json_parse ?parsed")
    case None
    with assms True have "parseSourceCode sourceCode name = Inr (single_file name sourceCode)"
      by (simp add: parseSourceCode_def)
    then show ?thesis by (simp add: Object_entries_single_file)
  next
    case (Some jsonData)
    show ?thesis
    proof (cases "js_get jsonData (js ''sources'')")
      case (Inl e)
      with assms True Some
      have "parseSourceCode sourceCode name = Inr (single_file name sourceCode)"
        by (simp add: parseSourceCode_def)
      then show ?thesis by (simp add: Object_entries_single_file)
    next
      case (Inr sources)
      then have nn: "jsonData \<noteq> JNull"
        by (auto simp: js_get_def)
      then obtain es0 where es0: "Object_entries jsonData = Inr es0"
        by (cases jsonData) (simp_all add: Object_entries_def)
      show ?thesis
      proof (cases "truthy sources \<and> typeof_object sources")
        case False
        with assms True Some Inr have "parseSourceCode sourceCode name = Inr jsonData"
          by (cases sources) (auto simp: parseSourceCode_def)
        with es0 True Some show ?thesis by auto
      next
        case yes: True
        then obtain s where s: "sources = Some s"
          by (cases sources) auto
        with yes obtain es1 where es1: "Object_entries s = Inr es1"
          by (cases s) (simp_all add: Object_entries_def)
        from assms True Some Inr s yes
        have "parseSourceCode sourceCode name = Inr s"
          by (simp add: parseSourceCode_def)
        with es1 True Some Inr s show ?thesis by auto
      qed
    qed
  qed
qed

text \<open>
  The hypothesis holds for the one-file source of the specification, where the result
  has its single entry.
\<close>

theorem C1_witness:
  "js ''pragma solidity ^0.8.0; ...'' \<noteq> []
   \<and> parseSourceCode (js ''pragma solidity ^0.8.0; ...'') (Some (js ''Foo'')) =
       Inr (JObj [(js ''Foo.sol'', JObj [(js ''content'', JStr (js ''pragma solidity ^0.8.0; ...''))])])
   \<and> (\<exists>v es. parseSourceCode (js ''pragma solidity ^0.8.0; ...'') (Some (js ''Foo'')) = Inr v
          \<and> Object_entries v = Inr es \<and> es \<noteq> [])"
proof -
  have a: "js ''pragma solidity ^0.8.0; ...'' \<noteq> []"
    by (simp add: js_def)
  have b: "\<not> startsWith (js ''pragma solidity ^0.8.0; ...'') (js ''{'')"
    by (simp add: js_def startsWith_def)
  have c: "parseSourceCode (js ''pragma solidity ^0.8.0; ...'') (Some (js ''Foo'')) =
       Inr (JObj [(js ''Foo.sol'', JObj [(js ''content'', JStr (js ''pragma solidity ^0.8.0; ...''))])])"
    using a b by (simp add: parseSourceCode_def single_file_def fileName_def) (simp add: js_def)
  from C1_entries_unless_parsed_empty [OF a, of "Some (js ''Foo'')"] b
  have "\<exists>v es. parseSourceCode (js ''pragma solidity ^0.8.0; ...'') (Some (js ''Foo'')) = Inr v
          \<and> Object_entries v = Inr es \<and> es \<noteq> []"
    by blast
  with a c show ?thesis by blast
qed

text \<open>
  C1 as stated fails: the non-empty source \<open>{}\<close> parses, and the result has no entry.
\<close>

theorem C1_counterexample:
  "js ''{}'' \<noteq> []
   \<and> parseSourceCode (js ''{}'') (Some (js ''Foo'')) = Inr (JObj [])
   \<and> Object_entries (JObj []) = Inr []"
  by (simp add: parseSourceCode_def startsWith_def js_get_def js_def json_parse_def
      is_ws_def is_digit_def Object_entries_def own_props_def)

subsection \<open>C2\<close>




subsection \<open>C3\<close>



subsection \<open>C4\<close>

text \<open>
  C4 at the source \<open>{"sources":{"a.sol":{"content":""}}}\<close>: the entry is an object
  whose \<open>content\<close> is the empty string, \<open>fileData.content || fileData\<close> is the entry
  object and not the empty string, and \<open>writeContractFiles\<close> ends with the
  \<open>TypeError\<close> of \<open>fs.writeFileSync\<close>, leaving the disk as it was.
\<close>

theorem C4_empty_content_writes_the_object:
  \<open>parseSourceCode (js ''{"sources":{"a.sol":{"content":""}}}'') (Some (js ''Foo'')) =
       Inr (JObj [(js ''a.sol'', JObj [(js ''content'', JStr [])])])
   \<and> entry_content (JObj [(js ''content'', JStr [])]) = Inr (JObj [(js ''content'', JStr [])])
   \<and> writeContractFiles join (contractData\<lparr>SourceCode := js ''{"sources":{"a.sol":{"content":""}}}''\<rparr>)
         out label files = (Inl TypeError, files)\<close>
proof -
  have e: "entry_content (JObj [(js ''content'', JStr [])]) = Inr (JObj [(js ''content'', JStr [])])"
    by (simp add: entry_content_def js_get_def)
  have o: "Object_entries (JObj [(js ''a.sol'', JObj [(js ''content'', JStr [])])])
             = Inr [(js ''a.sol'', JObj [(js ''content'', JStr [])])]"
    by (simp add: Object_entries_def own_props_single)
  have w: \<open>writeContractFiles join (contractData\<lparr>SourceCode := js ''{"sources":{"a.sol":{"content":""}}}''\<rparr>)
         out label files = (Inl TypeError, files)\<close>
    by (simp add: writeContractFiles_def empty_content_parse o e writeFileSync_def)
  show ?thesis using empty_content_parse e w by blast
qed

subsection \<open>C5\<close>

text \<open>
  C5. When the record fetched first is a proxy whose files and manifest entry have been
  written, and the fetch of the implementation fails with an error \<open>e\<close>, the run ends
  with \<open>e\<close> and the disk is the one the proxy's \<open>saveResults\<close> left: every file of
  the proxy's file list exists, and the manifest document is the serialised result of
  the upsert of the proxy's entry (for an object manifest and an address other than
  \<open>__proto__\<close>, the manifest with that entry defined under the address).
\<close>

theorem C5_failed_implementation_fetch_keeps_proxy:
  assumes "address cfg \<noteq> []"
    and "fetchContract (request 0) (apiUrl cfg) (address cfg) (apiKey cfg) (chainId cfg)
           = Inr contractData"
    and "Proxy contractData = js ''1''" and "Implementation contractData \<noteq> []"
    and "writeContractFiles join contractData (outputDir cfg)
           (ContractName contractData @ js ''_Proxy'') files = (Inr proxyResult, files1)"
    and "saveResults join (clock 0) (outputDir cfg) (address cfg) proxyResult files1
           = (Inr (), files2)"
    and "fetchContract (request 1) (apiUrl cfg) (Implementation contractData) (apiKey cfg)
           (chainId cfg) = Inl e"
  shows "main join request clock cfg files =
           \<lparr> outcome = Inl e, disk = files2, saved = [(address cfg, proxyResult)] \<rparr>
         \<and> (\<forall>p \<in> set (fileList proxyResult). join (outputDir cfg) p \<in> dom files2)
         \<and> (\<exists>m. upsert (load_results files1 (join (outputDir cfg) (js ''results.json'')))
                    (address cfg) proxyResult (clock 0) = Inr m
                \<and> files2 (join (outputDir cfg) (js ''results.json'')) = Some (JSON_stringify m))
         \<and> (\<forall>kvs. load_results files1 (join (outputDir cfg) (js ''results.json'')) = JObj kvs
                \<longrightarrow> address cfg \<noteq> js ''__proto__''
                \<longrightarrow> files2 (join (outputDir cfg) (js ''results.json'')) =
                      Some (JSON_stringify
                        (JObj (obj_define kvs (address cfg)
                                 (manifest_entry (address cfg) proxyResult (clock 0))))))"
proof -
  have ws: "write_and_save join (clock 0) (outputDir cfg) contractData
              (ContractName contractData @ js ''_Proxy'') (address cfg) files
            = (Inr proxyResult, files2)"
    using assms(5,6) by (simp add: write_and_save_def)
  have run: "main join request clock cfg files =
           \<lparr> outcome = Inl e, disk = files2, saved = [(address cfg, proxyResult)] \<rparr>"
    using assms(1-4,7) ws by (simp add: main_def)
  from writeContractFiles_Inr [OF assms(5)]
  have written: "\<forall>p \<in> set (fileList proxyResult). join (outputDir cfg) p \<in> dom files1"
    by simp
  from saveResults_Inr [OF assms(6)] obtain m where
    m: "upsert (load_results files1 (join (outputDir cfg) (js ''results.json'')))
          (address cfg) proxyResult (clock 0) = Inr m"
    and f2: "files2 = files1(join (outputDir cfg) (js ''results.json'') \<mapsto> JSON_stringify m)"
    by blast
  from written f2
  have kept: "\<forall>p \<in> set (fileList proxyResult). join (outputDir cfg) p \<in> dom files2"
    by auto
  from m f2
  have doc: "\<exists>m. upsert (load_results files1 (join (outputDir cfg) (js ''results.json'')))
                    (address cfg) proxyResult (clock 0) = Inr m
                \<and> files2 (join (outputDir cfg) (js ''results.json'')) = Some (JSON_stringify m)"
    by auto
  from m f2
  have entry: "\<forall>kvs. load_results files1 (join (outputDir cfg) (js ''results.json'')) = JObj kvs
                \<longrightarrow> address cfg \<noteq> js ''__proto__''
                \<longrightarrow> files2 (join (outputDir cfg) (js ''results.json'')) =
                      Some (JSON_stringify
                        (JObj (obj_define kvs (address cfg)
                                 (manifest_entry (address cfg) proxyResult (clock 0)))))"
    by (auto simp: upsert_object_cases)
  from run kept doc entry show ?thesis
    by blast
qed

text \<open>
  The hypotheses hold for the proxy \<open>P\<close> on an empty disk with a network error at the
  second request: the run ends with that error, \<open>P.sol\<close> and the manifest stay.
\<close>

theorem C5_witness:
  "main example_join (example_request example_proxy (Inl Network_error)) example_clock
     example_config Map.empty =
     \<lparr> outcome = Inl Network_error,
       disk = Map.empty
         (example_join (js ''out'') (js ''P.sol'') \<mapsto> js ''contract P {}'',
          example_join (js ''out'') (js ''results.json'') \<mapsto>
            JSON_stringify
              (JObj [(js ''0xP'',
                      manifest_entry (js ''0xP'')
                        (single_file_result (js ''out'') example_proxy (js ''P_Proxy''))
                        (example_clock 0))])),
       saved = [(js ''0xP'', single_file_result (js ''out'') example_proxy (js ''P_Proxy''))] \<rparr>
   \<and> fileList (single_file_result (js ''out'') example_proxy (js ''P_Proxy'')) = [js ''P.sol'']"
proof -
  let ?R = "single_file_result (js ''out'') example_proxy (js ''P_Proxy'')"
  let ?F1 = "Map.empty(example_join (js ''out'') (js ''P.sol'') \<mapsto> js ''contract P {}'')"
  let ?F2 = "?F1(example_join (js ''out'') (js ''results.json'') \<mapsto>
               JSON_stringify (JObj [(js ''0xP'', manifest_entry (js ''0xP'') ?R (example_clock 0))]))"
  have names: "js ''P'' @ js ''_Proxy'' = js ''P_Proxy''" "fileName (Some (js ''P'')) = js ''P.sol''"
    "js ''0xP'' \<noteq> []" "js ''0xI'' \<noteq> []" "js ''0xP'' \<noteq> js ''__proto__''"
    "js ''P.sol'' \<noteq> js ''results.json''" "js ''results.json'' \<noteq> js ''P.sol''"
    by (simp_all add: js_def fileName_def)
  have h1: "address example_config \<noteq> []"
    by (simp add: example_config_facts names)
  have h2: "fetchContract (example_request example_proxy (Inl Network_error) 0)
              (apiUrl example_config) (address example_config) (apiKey example_config)
              (chainId example_config) = Inr example_proxy"
    by (rule example_fetch_first)
  have h3: "Proxy example_proxy = js ''1''"
    by (simp add: example_proxy_facts)
  have h4: "Implementation example_proxy \<noteq> []"
    by (simp add: example_proxy_facts names)
  have h5: "writeContractFiles example_join example_proxy (outputDir example_config)
              (ContractName example_proxy @ js ''_Proxy'') Map.empty = (Inr ?R, ?F1)"
    using writeContractFiles_plain [of example_proxy example_join "js ''out''" "js ''P_Proxy''" Map.empty]
    by (simp add: example_proxy_facts example_config_facts plain_sources names)
  have l: "load_results ?F1 (example_join (js ''out'') (js ''results.json'')) = JObj []"
    by (rule load_results_absent) (simp add: example_join_inject names)
  have h6: "saveResults example_join (example_clock 0) (outputDir example_config)
              (address example_config) ?R ?F1 = (Inr (), ?F2)"
    using saveResults_object [where join = example_join and out = "js ''out''" and files = ?F1
        and kvs = "[]" and now = "example_clock 0" and addr = "js ''0xP''" and r = ?R, OF l]
    by (simp add: example_config_facts names)
  have h7: "fetchContract (example_request example_proxy (Inl Network_error) 1)
              (apiUrl example_config) (Implementation example_proxy) (apiKey example_config)
              (chainId example_config) = Inl Network_error"
    using example_fetch_second [of example_proxy "Inl Network_error"] by simp
  have fl: "fileList ?R = [js ''P.sol'']"
    by (simp add: single_file_result_def example_proxy_facts names)
  from C5_failed_implementation_fetch_keeps_proxy [where join = example_join
      and request = "example_request example_proxy (Inl Network_error)" and clock = example_clock
      and cfg = example_config and files = Map.empty, OF h1 h2 h3 h4 h5 h6 h7] fl
  show ?thesis
    by (simp add: example_config_facts)
qed

subsection \<open>C6\<close>

text \<open>
  C6. A source that starts with \<open>{{\<close> is parsed without its first and its last
  character. When that payload parses, the double-wrapped source normalizes to the same
  result as the payload itself; when it does not, the whole source is the single file.
\<close>

theorem C6_double_wrap_is_stripped_once:
  assumes "startsWith sourceCode (js ''{{'')"
  shows "parseSourceCode sourceCode name =
           (case json_parse (butlast (tl sourceCode)) of
              None \<Rightarrow> Inr (JObj [(fileName name, JObj [(js ''content'', JStr sourceCode)])])
            | Some jsonData \<Rightarrow> parseSourceCode (butlast (tl sourceCode)) name)"
proof -
  from assms obtain r where s: "sourceCode = 0x7B # 0x7B # r"
    by (auto simp: startsWith_brace2)
  have one: "startsWith sourceCode (js ''{'')"
    using s by (simp add: startsWith_brace)
  show ?thesis
  proof (cases "json_parse (butlast (tl sourceCode))")
    case None
    then show ?thesis
      using parseSourceCode_fallback [OF one, of name] assms
      by (simp add: slice_1_neg1_butlast_tl single_file_def)
  next
    case (Some jsonData)
    then have ne: "r \<noteq> []"
      using s json_parse_empty by (cases r) auto
    have inner: "butlast (tl sourceCode) = 0x7B # butlast r"
      using s ne by simp
    have nd: "\<not> startsWith (butlast (tl sourceCode)) (js ''{{'')"
      using Some by (rule json_parse_not_double)
    have i1: "startsWith (butlast (tl sourceCode)) (js ''{'')"
      using inner by (simp add: startsWith_brace)
    obtain kvs where obj: "jsonData = JObj kvs"
      using Some inner json_parse_brace_obj by auto
    have "parseSourceCode sourceCode name =
          parseSourceCode (butlast (tl sourceCode)) name"
      using assms one nd i1 Some s inner obj
      by (simp add: parseSourceCode_def slice_1_neg1_butlast_tl js_get_def)
    then show ?thesis using Some by simp
  qed
qed

text \<open>
  The double-wrapped payload of the specification normalizes as its single-wrapped form.
\<close>

theorem C6_witness:
  \<open>startsWith (js ''{{"sources":{"a.sol":{"content":"x"}}}}'') (js ''{{'')
   \<and> butlast (tl (js ''{{"sources":{"a.sol":{"content":"x"}}}}'')) =
       js ''{"sources":{"a.sol":{"content":"x"}}}''
   \<and> parseSourceCode (js ''{{"sources":{"a.sol":{"content":"x"}}}}'') (Some (js ''Foo'')) =
       parseSourceCode (js ''{"sources":{"a.sol":{"content":"x"}}}'') (Some (js ''Foo''))
   \<and> parseSourceCode (js ''{"sources":{"a.sol":{"content":"x"}}}'') (Some (js ''Foo'')) =
       Inr (JObj [(js ''a.sol'', JObj [(js ''content'', JStr (js ''x''))])])\<close>
proof -
  have a: \<open>startsWith (js ''{{"sources":{"a.sol":{"content":"x"}}}}'') (js ''{{'')\<close>
    by (simp add: startsWith_def js_def)
  have b: \<open>butlast (tl (js ''{{"sources":{"a.sol":{"content":"x"}}}}'')) =
       js ''{"sources":{"a.sol":{"content":"x"}}}''\<close>
    by (simp add: js_def)
  have c: \<open>json_parse (js ''{"sources":{"a.sol":{"content":"x"}}}'') =
       Some (JObj [(js ''sources'', JObj [(js ''a.sol'', JObj [(js ''content'', JStr (js ''x''))])])])\<close>
    by (simp add: js_def json_parse_def is_ws_def is_digit_def)
  have d: \<open>parseSourceCode (js ''{"sources":{"a.sol":{"content":"x"}}}'') (Some (js ''Foo'')) =
       Inr (JObj [(js ''a.sol'', JObj [(js ''content'', JStr (js ''x''))])])\<close>
    by (simp add: parseSourceCode_def startsWith_def js_get_def js_def json_parse_def
        is_ws_def is_digit_def)
  have e: \<open>parseSourceCode (js ''{{"sources":{"a.sol":{"content":"x"}}}}'') (Some (js ''Foo'')) =
       parseSourceCode (js ''{"sources":{"a.sol":{"content":"x"}}}'') (Some (js ''Foo''))\<close>
    using C6_double_wrap_is_stripped_once [OF a, of "Some (js ''Foo'')"]
    unfolding b c by simp
  show ?thesis
    using a b d e by blast
qed

subsection \<open>C7\<close>

text \<open>
  C7. A source that starts with \<open>{\<close> and fails the structured parse (after the
  stripping of a double brace, if any) does not raise: the result is the single file
  \<open><contractName>.sol\<close>, or \<open>Contract.sol\<close> when no name is given (the argument is
  left out or empty), and its content is the original, unstripped source.
\<close>

theorem C7_parse_failure_keeps_original:
  assumes "startsWith sourceCode (js ''{'')"
    and "json_parse (if startsWith sourceCode (js ''{{'') then slice_1_neg1 sourceCode
                     else sourceCode) = None"
  shows "parseSourceCode sourceCode name =
           Inr (JObj [(case name of
                         None \<Rightarrow> js ''Contract.sol''
                       | Some n \<Rightarrow> if n = [] then js ''Contract.sol'' else n @ js ''.sol'',
                       JObj [(js ''content'', JStr sourceCode)])])"
  using parseSourceCode_fallback [OF assms, of name]
  by (simp add: single_file_def fileName_def split: option.splits)

text \<open>
  The hypotheses hold for the source \<open>{not-valid-json\<close> of the specification.
\<close>

theorem C7_witness:
  "startsWith (js ''{not-valid-json'') (js ''{'')
   \<and> json_parse (if startsWith (js ''{not-valid-json'') (js ''{{'')
                  then slice_1_neg1 (js ''{not-valid-json'') else js ''{not-valid-json'') = None
   \<and> parseSourceCode (js ''{not-valid-json'') (Some (js ''Foo'')) =
       Inr (JObj [(js ''Foo.sol'', JObj [(js ''content'', JStr (js ''{not-valid-json''))])])
   \<and> parseSourceCode (js ''{not-valid-json'') None =
       Inr (JObj [(js ''Contract.sol'', JObj [(js ''content'', JStr (js ''{not-valid-json''))])])"
proof -
  have a: "startsWith (js ''{not-valid-json'') (js ''{'')"
    by (simp add: startsWith_def js_def)
  have b: "json_parse (if startsWith (js ''{not-valid-json'') (js ''{{'')
                  then slice_1_neg1 (js ''{not-valid-json'') else js ''{not-valid-json'') = None"
    by (simp add: startsWith_def js_def json_parse_def is_ws_def is_digit_def)
  have c: "js ''Foo'' \<noteq> []" by (simp add: js_def)
  show ?thesis
    using a b C7_parse_failure_keeps_original [OF a b, of "Some (js ''Foo'')"]
      C7_parse_failure_keeps_original [OF a b, of None] c
    by (simp add: js_def)
qed

subsection \<open>C8\<close>

text \<open>
  C8. When the manifest document exists and fails to parse, the manifest that is loaded
  is the empty object, and \<open>saveResults\<close> does not raise: it performs the upsert on
  the empty object and writes the serialised result to the same path.
\<close>

theorem C8_unparsable_manifest_is_reset:
  assumes "files (join out (js ''results.json'')) = Some existing"
    and "json_parse existing = None"
  shows "load_results files (join out (js ''results.json'')) = JObj []
         \<and> upsert (JObj []) addr r now =
             Inr (JObj (if addr = js ''__proto__'' then [] else [(addr, manifest_entry addr r now)]))
         \<and> saveResults join now out addr r files =
             (Inr (),
              files(join out (js ''results.json'') \<mapsto>
                JSON_stringify
                  (JObj (if addr = js ''__proto__'' then []
                         else [(addr, manifest_entry addr r now)]))))"
proof -
  have l: "load_results files (join out (js ''results.json'')) = JObj []"
    using assms by (rule load_results_unparsable)
  have u: "upsert (JObj []) addr r now =
             Inr (JObj (if addr = js ''__proto__'' then [] else [(addr, manifest_entry addr r now)]))"
    by (simp add: upsert_def js_set_def)
  show ?thesis
    using l u by (simp add: saveResults_def writeFileSync_def)
qed

text \<open>
  The hypotheses hold for the document \<open>{corrupt\<close>: the manifest written holds the one
  new entry.
\<close>

theorem C8_witness:
  "(Map.empty(example_join (js ''out'') (js ''results.json'') \<mapsto> js ''{corrupt''))
       (example_join (js ''out'') (js ''results.json'')) = Some (js ''{corrupt'')
   \<and> json_parse (js ''{corrupt'') = None
   \<and> load_results (Map.empty(example_join (js ''out'') (js ''results.json'') \<mapsto> js ''{corrupt''))
        (example_join (js ''out'') (js ''results.json'')) = JObj []
   \<and> saveResults example_join (js ''2026-01-01T00:00:00.000Z'') (js ''out'') (js ''0xAb'')
        example_result
        (Map.empty(example_join (js ''out'') (js ''results.json'') \<mapsto> js ''{corrupt'')) =
       (Inr (),
        Map.empty(example_join (js ''out'') (js ''results.json'') \<mapsto>
          JSON_stringify
            (JObj [(js ''0xAb'',
                    manifest_entry (js ''0xAb'') example_result (js ''2026-01-01T00:00:00.000Z''))])))"
proof -
  let ?p = "example_join (js ''out'') (js ''results.json'')"
  have a: "(Map.empty(?p \<mapsto> js ''{corrupt'')) ?p = Some (js ''{corrupt'')"
    by simp
  have b: "json_parse (js ''{corrupt'') = None"
    by (simp add: js_def json_parse_def is_ws_def is_digit_def startsWith_def)
  have c: "js ''0xAb'' \<noteq> js ''__proto__''"
    by (simp add: js_def)
  show ?thesis
    using a b c
      C8_unparsable_manifest_is_reset [where files = "Map.empty(?p \<mapsto> js ''{corrupt'')"
        and join = example_join and out = "js ''out''" and existing = "js ''{corrupt''"
        and addr = "js ''0xAb''" and r = example_result and now = "js ''2026-01-01T00:00:00.000Z''",
        OF a b]
    by simp
qed

subsection \<open>C9\<close>

text \<open>
  C9. For every manifest object (own keys distinct, as in every manifest that is
  loaded) and every address (other than the key \<open>__proto__\<close>), two upserts in a row
  for the address with the same contract data both succeed and leave exactly one entry
  for it. The entry is the newly built one, whatever the manifest held before; the two
  entries built are the same fields followed by \<open>fetchedAt\<close>, so they differ in the
  timestamp at most; the second upsert keeps the keys of the first and changes no other
  entry.
\<close>

theorem C9_upsert_twice_leaves_one_entry:
  assumes "distinct (map fst kvs)" and "addr \<noteq> js ''__proto__''"
  shows "\<exists>kvs1 kvs2 fields.
           upsert (JObj kvs) addr r t1 = Inr (JObj kvs1)
           \<and> upsert (JObj kvs1) addr r t2 = Inr (JObj kvs2)
           \<and> length (filter (\<lambda>kv. fst kv = addr) kvs2) = 1
           \<and> map_of kvs1 addr = Some (JObj (fields @ [(js ''fetchedAt'', JStr t1)]))
           \<and> map_of kvs2 addr = Some (JObj (fields @ [(js ''fetchedAt'', JStr t2)]))
           \<and> JObj (fields @ [(js ''fetchedAt'', JStr t2)]) = manifest_entry addr r t2
           \<and> js ''fetchedAt'' \<notin> fst ` set fields
           \<and> map fst kvs2 = map fst kvs1
           \<and> map_of kvs2 = (map_of kvs)(addr \<mapsto> manifest_entry addr r t2)"
proof -
  let ?kvs1 = "obj_define kvs addr (manifest_entry addr r t1)"
  let ?kvs2 = "obj_define ?kvs1 addr (manifest_entry addr r t2)"
  let ?fields = "[(js ''address'', JStr addr),
                  (js ''contractName'', JStr (contractName (metadata r))),
                  (js ''directory'', JStr (directoryName r)),
                  (js ''files'', JArr (map JStr (fileList r))),
                  (js ''metadata'', metadata_js (metadata r)),
                  (js ''abi'', abi r)]"
  have u1: "upsert (JObj kvs) addr r t1 = Inr (JObj ?kvs1)"
    using assms(2) by (rule upsert_object)
  have u2: "upsert (JObj ?kvs1) addr r t2 = Inr (JObj ?kvs2)"
    using assms(2) by (rule upsert_object)
  have d2: "distinct (map fst ?kvs2)"
    using assms(1) by (intro distinct_obj_define)
  have one: "length (filter (\<lambda>kv. fst kv = addr) ?kvs2) = 1"
    using d2 key_in_obj_define by (rule count_key_distinct)
  have e1: "manifest_entry addr r t1 = JObj (?fields @ [(js ''fetchedAt'', JStr t1)])"
    by (simp add: manifest_entry_def)
  have e2: "manifest_entry addr r t2 = JObj (?fields @ [(js ''fetchedAt'', JStr t2)])"
    by (simp add: manifest_entry_def)
  have nf: "js ''fetchedAt'' \<notin> fst ` set ?fields"
    by (simp add: js_def)
  have m1: "map_of ?kvs1 addr = Some (JObj (?fields @ [(js ''fetchedAt'', JStr t1)]))"
    by (simp add: map_of_obj_define e1)
  have m2: "map_of ?kvs2 addr = Some (JObj (?fields @ [(js ''fetchedAt'', JStr t2)]))"
    by (simp add: map_of_obj_define e2)
  have k: "map fst ?kvs2 = map fst ?kvs1"
    by (rule obj_define_twice)
  have mm: "map_of ?kvs2 = (map_of kvs)(addr \<mapsto> manifest_entry addr r t2)"
    by (simp add: map_of_obj_define)
  show ?thesis
    by (rule exI [of _ ?kvs1], rule exI [of _ ?kvs2], rule exI [of _ ?fields])
      (intro conjI u1 u2 one m1 m2 e2 [symmetric] nf k mm)
qed

text \<open>
  The hypotheses hold for the manifest loaded from a document with a stale value under
  the address; the keys of a loaded manifest are always distinct.
\<close>

theorem C9_witness:
  \<open>load_results
      (Map.empty(example_join (js ''out'') (js ''results.json'') \<mapsto> js ''{"0xAb":"stale"}''))
      (example_join (js ''out'') (js ''results.json'')) = JObj [(js ''0xAb'', JStr (js ''stale''))]
   \<and> distinct (map fst [(js ''0xAb'', JStr (js ''stale''))])
   \<and> js ''0xAb'' \<noteq> js ''__proto__''
   \<and> (\<exists>kvs1 kvs2.
         upsert (JObj [(js ''0xAb'', JStr (js ''stale''))]) (js ''0xAb'') example_result
           (example_clock 0) = Inr (JObj kvs1)
         \<and> upsert (JObj kvs1) (js ''0xAb'') example_result (example_clock 1) = Inr (JObj kvs2)
         \<and> length (filter (\<lambda>kv. fst kv = js ''0xAb'') kvs2) = 1
         \<and> map_of kvs2 (js ''0xAb'') =
             Some (manifest_entry (js ''0xAb'') example_result (example_clock 1)))\<close>
proof -
  have l: \<open>load_results
      (Map.empty(example_join (js ''out'') (js ''results.json'') \<mapsto> js ''{"0xAb":"stale"}''))
      (example_join (js ''out'') (js ''results.json'')) = JObj [(js ''0xAb'', JStr (js ''stale''))]\<close>
    by (simp add: load_results_def json_parse_def js_def is_ws_def is_digit_def)
  have d: "distinct (map fst [(js ''0xAb'', JStr (js ''stale''))])"
    using l by (rule load_results_distinct)
  have n: "js ''0xAb'' \<noteq> js ''__proto__''"
    by (simp add: js_def)
  from C9_upsert_twice_leaves_one_entry [OF d n, of example_result "example_clock 0" "example_clock 1"]
  obtain kvs1 kvs2 fields where
    "upsert (JObj [(js ''0xAb'', JStr (js ''stale''))]) (js ''0xAb'') example_result
       (example_clock 0) = Inr (JObj kvs1)"
    "upsert (JObj kvs1) (js ''0xAb'') example_result (example_clock 1) = Inr (JObj kvs2)"
    "length (filter (\<lambda>kv. fst kv = js ''0xAb'') kvs2) = 1"
    "map_of kvs2 (js ''0xAb'') = Some (JObj (fields @ [(js ''fetchedAt'', JStr (example_clock 1))]))"
    "JObj (fields @ [(js ''fetchedAt'', JStr (example_clock 1))]) =
       manifest_entry (js ''0xAb'') example_result (example_clock 1)"
    by blast
  with l d n show ?thesis
    by auto
qed

subsection \<open>C10\<close>

text \<open>
  C10. In a run that ends without an error, the manifest document on the disk is the
  serialised result of the upsert for the address that was handed over unchanged: the
  address of the configuration as given and, for a proxy, after it the
  \<open>Implementation\<close> string as returned, whose document is the one the run leaves.
  Where the manifest that is loaded is an object (and the address is not the key
  \<open>__proto__\<close>), the document left on the disk is the serialisation of an object that
  holds the new entry under exactly that address, with the address as the entry's
  \<open>address\<close> field, and every other key, such as a differently cased spelling, with
  the value it had.
\<close>

theorem C10_addresses_are_keys_verbatim:
  assumes "outcome (main join request clock cfg files) = Inr ()"
  shows "\<exists>contractData.
           fetchContract (request 0) (apiUrl cfg) (address cfg) (apiKey cfg) (chainId cfg)
             = Inr contractData
           \<and> (if Proxy contractData = js ''1'' \<and> Implementation contractData \<noteq> [] then
                 \<exists>r1 files1 m1 implData r2 files3 m2.
                   writeContractFiles join contractData (outputDir cfg)
                       (ContractName contractData @ js ''_Proxy'') files = (Inr r1, files1)
                   \<and> upsert (load_results files1 (join (outputDir cfg) (js ''results.json'')))
                         (address cfg) r1 (clock 0) = Inr m1
                   \<and> fetchContract (request 1) (apiUrl cfg) (Implementation contractData)
                         (apiKey cfg) (chainId cfg) = Inr implData
                   \<and> writeContractFiles join implData (outputDir cfg) (ContractName implData)
                         (files1(join (outputDir cfg) (js ''results.json'') \<mapsto> JSON_stringify m1))
                       = (Inr r2, files3)
                   \<and> upsert (load_results files3 (join (outputDir cfg) (js ''results.json'')))
                         (Implementation contractData) r2 (clock 1) = Inr m2
                   \<and> disk (main join request clock cfg files) =
                         files3(join (outputDir cfg) (js ''results.json'') \<mapsto> JSON_stringify m2)
                   \<and> saved (main join request clock cfg files) =
                         [(address cfg, r1), (Implementation contractData, r2)]
                   \<and> js_get (manifest_entry (address cfg) r1 (clock 0)) (js ''address'')
                         = Inr (Some (JStr (address cfg)))
                   \<and> js_get (manifest_entry (Implementation contractData) r2 (clock 1))
                         (js ''address'') = Inr (Some (JStr (Implementation contractData)))
                   \<and> (\<forall>kvs. load_results files1 (join (outputDir cfg) (js ''results.json''))
                                = JObj kvs
                          \<longrightarrow> address cfg \<noteq> js ''__proto__''
                          \<longrightarrow> (\<exists>kvs'. m1 = JObj kvs'
                                 \<and> map_of kvs' (address cfg) =
                                     Some (manifest_entry (address cfg) r1 (clock 0))
                                 \<and> (\<forall>b. b \<noteq> address cfg \<longrightarrow> map_of kvs' b = map_of kvs b)))
                   \<and> (\<forall>kvs. load_results files3 (join (outputDir cfg) (js ''results.json''))
                                = JObj kvs
                          \<longrightarrow> Implementation contractData \<noteq> js ''__proto__''
                          \<longrightarrow> (\<exists>kvs'. disk (main join request clock cfg files)
                                        (join (outputDir cfg) (js ''results.json''))
                                     = Some (JSON_stringify (JObj kvs'))
                                 \<and> map_of kvs' (Implementation contractData) =
                                     Some (manifest_entry (Implementation contractData) r2 (clock 1))
                                 \<and> (\<forall>b. b \<noteq> Implementation contractData
                                        \<longrightarrow> map_of kvs' b = map_of kvs b)))
               else
                 \<exists>r files1 m.
                   writeContractFiles join contractData (outputDir cfg) (ContractName contractData)
                       files = (Inr r, files1)
                   \<and> upsert (load_results files1 (join (outputDir cfg) (js ''results.json'')))
                         (address cfg) r (clock 0) = Inr m
                   \<and> disk (main join request clock cfg files) =
                         files1(join (outputDir cfg) (js ''results.json'') \<mapsto> JSON_stringify m)
                   \<and> saved (main join request clock cfg files) = [(address cfg, r)]
                   \<and> js_get (manifest_entry (address cfg) r (clock 0)) (js ''address'')
                         = Inr (Some (JStr (address cfg)))
                   \<and> (\<forall>kvs. load_results files1 (join (outputDir cfg) (js ''results.json''))
                                = JObj kvs
                          \<longrightarrow> address cfg \<noteq> js ''__proto__''
                          \<longrightarrow> (\<exists>kvs'. disk (main join request clock cfg files)
                                        (join (outputDir cfg) (js ''results.json''))
                                     = Some (JSON_stringify (JObj kvs'))
                                 \<and> map_of kvs' (address cfg) =
                                     Some (manifest_entry (address cfg) r (clock 0))
                                 \<and> (\<forall>b. b \<noteq> address cfg \<longrightarrow> map_of kvs' b = map_of kvs b))))"
proof -
  let ?P = "join (outputDir cfg) (js ''results.json'')"
  from main_success [OF assms] obtain cd where
    f0: "fetchContract (request 0) (apiUrl cfg) (address cfg) (apiKey cfg) (chainId cfg) = Inr cd"
    and rest: "if Proxy cd = js ''1'' \<and> Implementation cd \<noteq> [] then
                 \<exists>r1 files1 impl r2 files2.
                   write_and_save join (clock 0) (outputDir cfg) cd
                       (ContractName cd @ js ''_Proxy'') (address cfg) files = (Inr r1, files1)
                   \<and> fetchContract (request 1) (apiUrl cfg) (Implementation cd) (apiKey cfg)
                         (chainId cfg) = Inr impl
                   \<and> write_and_save join (clock 1) (outputDir cfg) impl (ContractName impl)
                         (Implementation cd) files1 = (Inr r2, files2)
                   \<and> main join request clock cfg files =
                         \<lparr> outcome = Inr (), disk = files2,
                           saved = [(address cfg, r1), (Implementation cd, r2)] \<rparr>
               else
                 \<exists>r files1.
                   write_and_save join (clock 0) (outputDir cfg) cd (ContractName cd)
                       (address cfg) files = (Inr r, files1)
                   \<and> main join request clock cfg files =
                         \<lparr> outcome = Inr (), disk = files1, saved = [(address cfg, r)] \<rparr>"
    by blast
  show ?thesis
  proof (cases "Proxy cd = js ''1'' \<and> Implementation cd \<noteq> []")
    case True
    with rest obtain r1 files2 impl r2 files4 where
      ws1: "write_and_save join (clock 0) (outputDir cfg) cd
              (ContractName cd @ js ''_Proxy'') (address cfg) files = (Inr r1, files2)"
      and f1: "fetchContract (request 1) (apiUrl cfg) (Implementation cd) (apiKey cfg)
                 (chainId cfg) = Inr impl"
      and ws2: "write_and_save join (clock 1) (outputDir cfg) impl (ContractName impl)
                  (Implementation cd) files2 = (Inr r2, files4)"
      and m: "main join request clock cfg files =
                \<lparr> outcome = Inr (), disk = files4,
                  saved = [(address cfg, r1), (Implementation cd, r2)] \<rparr>"
      by auto
    from write_and_save_Inr [OF ws1] obtain files1 where
      w1: "writeContractFiles join cd (outputDir cfg) (ContractName cd @ js ''_Proxy'') files
             = (Inr r1, files1)"
      and s1: "saveResults join (clock 0) (outputDir cfg) (address cfg) r1 files1 = (Inr (), files2)"
      by blast
    from saveResults_Inr [OF s1] obtain m1 where
      u1: "upsert (load_results files1 ?P) (address cfg) r1 (clock 0) = Inr m1"
      and d1: "files2 = files1(?P \<mapsto> JSON_stringify m1)"
      by blast
    from write_and_save_Inr [OF ws2] obtain files3 where
      w2: "writeContractFiles join impl (outputDir cfg) (ContractName impl) files2
             = (Inr r2, files3)"
      and s2: "saveResults join (clock 1) (outputDir cfg) (Implementation cd) r2 files3
                 = (Inr (), files4)"
      by blast
    from saveResults_Inr [OF s2] obtain m2 where
      u2: "upsert (load_results files3 ?P) (Implementation cd) r2 (clock 1) = Inr m2"
      and d2: "files4 = files3(?P \<mapsto> JSON_stringify m2)"
      by blast
    have k1: "\<forall>kvs. load_results files1 ?P = JObj kvs
                \<longrightarrow> address cfg \<noteq> js ''__proto__''
                \<longrightarrow> (\<exists>kvs'. m1 = JObj kvs'
                       \<and> map_of kvs' (address cfg) = Some (manifest_entry (address cfg) r1 (clock 0))
                       \<and> (\<forall>b. b \<noteq> address cfg \<longrightarrow> map_of kvs' b = map_of kvs b))"
      using upsert_keyed [OF u1] by blast
    have k2: "\<forall>kvs. load_results files3 ?P = JObj kvs
                \<longrightarrow> Implementation cd \<noteq> js ''__proto__''
                \<longrightarrow> (\<exists>kvs'. disk (main join request clock cfg files) ?P
                             = Some (JSON_stringify (JObj kvs'))
                       \<and> map_of kvs' (Implementation cd) =
                           Some (manifest_entry (Implementation cd) r2 (clock 1))
                       \<and> (\<forall>b. b \<noteq> Implementation cd \<longrightarrow> map_of kvs' b = map_of kvs b))"
    proof (intro allI impI)
      fix kvs
      assume "load_results files3 ?P = JObj kvs" and "Implementation cd \<noteq> js ''__proto__''"
      from upsert_keyed [OF u2 this] obtain kvs' where
        "m2 = JObj kvs'"
        "map_of kvs' (Implementation cd) = Some (manifest_entry (Implementation cd) r2 (clock 1))"
        "\<forall>b. b \<noteq> Implementation cd \<longrightarrow> map_of kvs' b = map_of kvs b"
        by blast
      with m d2 show "\<exists>kvs'. disk (main join request clock cfg files) ?P
                             = Some (JSON_stringify (JObj kvs'))
                       \<and> map_of kvs' (Implementation cd) =
                           Some (manifest_entry (Implementation cd) r2 (clock 1))
                       \<and> (\<forall>b. b \<noteq> Implementation cd \<longrightarrow> map_of kvs' b = map_of kvs b)"
        by auto
    qed
    from m d2 have dk: "disk (main join request clock cfg files) = files3(?P \<mapsto> JSON_stringify m2)"
      by simp
    from m have sv: "saved (main join request clock cfg files) =
                       [(address cfg, r1), (Implementation cd, r2)]"
      by simp
    from w2 d1 have w2': "writeContractFiles join impl (outputDir cfg) (ContractName impl)
                            (files1(?P \<mapsto> JSON_stringify m1)) = (Inr r2, files3)"
      by simp
    have branch: "\<exists>r1 files1 m1 implData r2 files3 m2.
            writeContractFiles join cd (outputDir cfg) (ContractName cd @ js ''_Proxy'') files
              = (Inr r1, files1)
            \<and> upsert (load_results files1 ?P) (address cfg) r1 (clock 0) = Inr m1
            \<and> fetchContract (request 1) (apiUrl cfg) (Implementation cd) (apiKey cfg)
                  (chainId cfg) = Inr implData
            \<and> writeContractFiles join implData (outputDir cfg) (ContractName implData)
                  (files1(?P \<mapsto> JSON_stringify m1)) = (Inr r2, files3)
            \<and> upsert (load_results files3 ?P) (Implementation cd) r2 (clock 1) = Inr m2
            \<and> disk (main join request clock cfg files) = files3(?P \<mapsto> JSON_stringify m2)
            \<and> saved (main join request clock cfg files) =
                  [(address cfg, r1), (Implementation cd, r2)]
            \<and> js_get (manifest_entry (address cfg) r1 (clock 0)) (js ''address'')
                  = Inr (Some (JStr (address cfg)))
            \<and> js_get (manifest_entry (Implementation cd) r2 (clock 1)) (js ''address'')
                  = Inr (Some (JStr (Implementation cd)))
            \<and> (\<forall>kvs. load_results files1 ?P = JObj kvs
                   \<longrightarrow> address cfg \<noteq> js ''__proto__''
                   \<longrightarrow> (\<exists>kvs'. m1 = JObj kvs'
                          \<and> map_of kvs' (address cfg) =
                              Some (manifest_entry (address cfg) r1 (clock 0))
                          \<and> (\<forall>b. b \<noteq> address cfg \<longrightarrow> map_of kvs' b = map_of kvs b)))
            \<and> (\<forall>kvs. load_results files3 ?P = JObj kvs
                   \<longrightarrow> Implementation cd \<noteq> js ''__proto__''
                   \<longrightarrow> (\<exists>kvs'. disk (main join request clock cfg files) ?P
                                 = Some (JSON_stringify (JObj kvs'))
                          \<and> map_of kvs' (Implementation cd) =
                              Some (manifest_entry (Implementation cd) r2 (clock 1))
                          \<and> (\<forall>b. b \<noteq> Implementation cd \<longrightarrow> map_of kvs' b = map_of kvs b)))"
      by (rule exI [of _ r1], rule exI [of _ files1], rule exI [of _ m1], rule exI [of _ impl],
          rule exI [of _ r2], rule exI [of _ files3], rule exI [of _ m2])
        (intro conjI w1 u1 f1 w2' u2 dk sv manifest_entry_address k1 k2)
    show ?thesis
      by (rule exI [of _ cd], rule conjI [OF f0], subst if_P [OF True], rule branch)
  next
    case False
    with rest obtain r files2 where
      ws: "write_and_save join (clock 0) (outputDir cfg) cd (ContractName cd)
             (address cfg) files = (Inr r, files2)"
      and m: "main join request clock cfg files =
                \<lparr> outcome = Inr (), disk = files2, saved = [(address cfg, r)] \<rparr>"
      by auto
    from write_and_save_Inr [OF ws] obtain files1 where
      w: "writeContractFiles join cd (outputDir cfg) (ContractName cd) files = (Inr r, files1)"
      and s: "saveResults join (clock 0) (outputDir cfg) (address cfg) r files1 = (Inr (), files2)"
      by blast
    from saveResults_Inr [OF s] obtain m0 where
      u: "upsert (load_results files1 ?P) (address cfg) r (clock 0) = Inr m0"
      and d: "files2 = files1(?P \<mapsto> JSON_stringify m0)"
      by blast
    have k: "\<forall>kvs. load_results files1 ?P = JObj kvs
                \<longrightarrow> address cfg \<noteq> js ''__proto__''
                \<longrightarrow> (\<exists>kvs'. disk (main join request clock cfg files) ?P
                             = Some (JSON_stringify (JObj kvs'))
                       \<and> map_of kvs' (address cfg) = Some (manifest_entry (address cfg) r (clock 0))
                       \<and> (\<forall>b. b \<noteq> address cfg \<longrightarrow> map_of kvs' b = map_of kvs b))"
    proof (intro allI impI)
      fix kvs
      assume "load_results files1 ?P = JObj kvs" and "address cfg \<noteq> js ''__proto__''"
      from upsert_keyed [OF u this] obtain kvs' where
        "m0 = JObj kvs'"
        "map_of kvs' (address cfg) = Some (manifest_entry (address cfg) r (clock 0))"
        "\<forall>b. b \<noteq> address cfg \<longrightarrow> map_of kvs' b = map_of kvs b"
        by blast
      with m d show "\<exists>kvs'. disk (main join request clock cfg files) ?P
                             = Some (JSON_stringify (JObj kvs'))
                       \<and> map_of kvs' (address cfg) = Some (manifest_entry (address cfg) r (clock 0))
                       \<and> (\<forall>b. b \<noteq> address cfg \<longrightarrow> map_of kvs' b = map_of kvs b)"
        by auto
    qed
    from m d have dk: "disk (main join request clock cfg files) = files1(?P \<mapsto> JSON_stringify m0)"
      by simp
    from m have sv: "saved (main join request clock cfg files) = [(address cfg, r)]"
      by simp
    have branch: "\<exists>r files1 m.
            writeContractFiles join cd (outputDir cfg) (ContractName cd) files = (Inr r, files1)
            \<and> upsert (load_results files1 ?P) (address cfg) r (clock 0) = Inr m
            \<and> disk (main join request clock cfg files) = files1(?P \<mapsto> JSON_stringify m)
            \<and> saved (main join request clock cfg files) = [(address cfg, r)]
            \<and> js_get (manifest_entry (address cfg) r (clock 0)) (js ''address'')
                  = Inr (Some (JStr (address cfg)))
            \<and> (\<forall>kvs. load_results files1 ?P = JObj kvs
                   \<longrightarrow> address cfg \<noteq> js ''__proto__''
                   \<longrightarrow> (\<exists>kvs'. disk (main join request clock cfg files) ?P
                                 = Some (JSON_stringify (JObj kvs'))
                          \<and> map_of kvs' (address cfg) =
                              Some (manifest_entry (address cfg) r (clock 0))
                          \<and> (\<forall>b. b \<noteq> address cfg \<longrightarrow> map_of kvs' b = map_of kvs b)))"
      by (rule exI [of _ r], rule exI [of _ files1], rule exI [of _ m0])
        (intro conjI w u dk sv manifest_entry_address k)
    show ?thesis
      by (rule exI [of _ cd], rule conjI [OF f0], subst if_not_P [OF False], rule branch)
  qed
qed

text \<open>
  A run for \<open>0xP\<close> over a manifest that holds \<open>0xp\<close> leaves a document with both
  keys; a run over the proxy \<open>P\<close> saves under \<open>0xP\<close> and \<open>0xI\<close> and leaves a
  document with the entry under \<open>0xI\<close>.
\<close>

theorem C10_witness:
  \<open>outcome (main example_join (example_request example_impl (Inl Network_error)) example_clock
              example_config
              (Map.empty(example_join (js ''out'') (js ''results.json'') \<mapsto> js ''{"0xp":null}'')))
     = Inr ()
   \<and> js ''0xp'' \<noteq> js ''0xP''
   \<and> (\<exists>kvs'.
         disk (main example_join (example_request example_impl (Inl Network_error)) example_clock
                 example_config
                 (Map.empty(example_join (js ''out'') (js ''results.json'') \<mapsto> js ''{"0xp":null}'')))
           (example_join (js ''out'') (js ''results.json'')) = Some (JSON_stringify (JObj kvs'))
         \<and> map_of kvs' (js ''0xP'') =
             Some (manifest_entry (js ''0xP'')
                     (single_file_result (js ''out'') example_impl (js ''Impl'')) (example_clock 0))
         \<and> map_of kvs' (js ''0xp'') = Some JNull)
   \<and> outcome (main example_join (example_request example_proxy (Inr example_impl))
                 example_clock example_config Map.empty) = Inr ()
   \<and> map fst (saved (main example_join (example_request example_proxy (Inr example_impl))
                       example_clock example_config Map.empty)) = [js ''0xP'', js ''0xI'']
   \<and> (\<exists>kvs'.
         disk (main example_join (example_request example_proxy (Inr example_impl))
                 example_clock example_config Map.empty)
           (example_join (js ''out'') (js ''results.json'')) = Some (JSON_stringify (JObj kvs'))
         \<and> map_of kvs' (js ''0xI'') =
             Some (manifest_entry (js ''0xI'')
                     (single_file_result (js ''out'') example_impl (js ''Impl'')) (example_clock 1)))\<close>
proof -
  let ?P = "example_join (js ''out'') (js ''results.json'')"
  let ?doc = \<open>js ''{"0xp":null}''\<close>
  let ?F0 = "Map.empty(?P \<mapsto> ?doc)"
  let ?R = "single_file_result (js ''out'') example_impl (js ''Impl'')"
  let ?F1 = "?F0(example_join (js ''out'') (js ''Impl.sol'') \<mapsto> js ''contract Impl {}'')"
  let ?A = "main example_join (example_request example_impl (Inl Network_error)) example_clock
              example_config ?F0"
  have names: "js ''0xp'' \<noteq> js ''0xP''" "js ''0xP'' \<noteq> js ''0xp''" "js ''0xP'' \<noteq> js ''__proto__''"
    "js ''0xI'' \<noteq> js ''__proto__''" "js ''0xP'' \<noteq> []" "js ''0xI'' \<noteq> []"
    "js ''0'' \<noteq> js ''1''" "fileName (Some (js ''Impl'')) = js ''Impl.sol''"
    "fileName (Some (js ''P'')) = js ''P.sol''" "js ''P'' @ js ''_Proxy'' = js ''P_Proxy''"
    "js ''Impl.sol'' \<noteq> js ''results.json''" "js ''results.json'' \<noteq> js ''Impl.sol''"
    "js ''P.sol'' \<noteq> js ''results.json''" "js ''results.json'' \<noteq> js ''P.sol''"
    by (simp_all add: js_def fileName_def)
  have fA: "fetchContract (example_request example_impl (Inl Network_error) 0)
              (apiUrl example_config) (address example_config) (apiKey example_config)
              (chainId example_config) = Inr example_impl"
    by (rule example_fetch_first)
  have wA: "writeContractFiles example_join example_impl (js ''out'') (js ''Impl'') ?F0
              = (Inr ?R, ?F1)"
    using writeContractFiles_plain [of example_impl example_join "js ''out''" "js ''Impl''" ?F0]
    by (simp add: example_impl_facts plain_sources names)
  have lA: "load_results ?F1 ?P = JObj [(js ''0xp'', JNull)]"
    by (simp add: load_results_def example_join_inject names)
      (simp add: json_parse_def js_def is_ws_def is_digit_def startsWith_def)
  have sA: "saveResults example_join (example_clock 0) (js ''out'') (js ''0xP'') ?R ?F1 =
              (Inr (), ?F1(?P \<mapsto> JSON_stringify
                 (JObj (obj_define [(js ''0xp'', JNull)] (js ''0xP'')
                          (manifest_entry (js ''0xP'') ?R (example_clock 0))))))"
    using saveResults_object [where join = example_join and out = "js ''out''" and files = ?F1
        and kvs = "[(js ''0xp'', JNull)]" and now = "example_clock 0" and addr = "js ''0xP''"
        and r = ?R, OF lA]
    by (simp add: names)
  have okA: "outcome ?A = Inr ()"
    by (simp add: main_def Let_def example_fetch_first write_and_save_def wA sA
        example_config_facts example_impl_facts names)
  note tA = C10_addresses_are_keys_verbatim [OF okA]
  have kA: "\<exists>kvs'. disk ?A ?P = Some (JSON_stringify (JObj kvs'))
              \<and> map_of kvs' (js ''0xP'') = Some (manifest_entry (js ''0xP'') ?R (example_clock 0))
              \<and> map_of kvs' (js ''0xp'') = Some JNull"
  proof -
    from tA fA obtain r files1 m where
      w: "writeContractFiles example_join example_impl (js ''out'') (js ''Impl'') ?F0
            = (Inr r, files1)"
      and k: "\<forall>kvs. load_results files1 ?P = JObj kvs
                \<longrightarrow> js ''0xP'' \<noteq> js ''__proto__''
                \<longrightarrow> (\<exists>kvs'. disk ?A ?P = Some (JSON_stringify (JObj kvs'))
                       \<and> map_of kvs' (js ''0xP'') = Some (manifest_entry (js ''0xP'') r (example_clock 0))
                       \<and> (\<forall>b. b \<noteq> js ''0xP'' \<longrightarrow> map_of kvs' b = map_of kvs b))"
      by (auto simp: example_config_facts example_impl_facts names example_fetch_first)
    from w wA have "r = ?R" "files1 = ?F1"
      by simp_all
    with k lA names obtain kvs' where
      "disk ?A ?P = Some (JSON_stringify (JObj kvs'))"
      "map_of kvs' (js ''0xP'') = Some (manifest_entry (js ''0xP'') ?R (example_clock 0))"
      "\<forall>b. b \<noteq> js ''0xP'' \<longrightarrow> map_of kvs' b = map_of [(js ''0xp'', JNull)] b"
      by blast
    with names show ?thesis
      by auto
  qed
  let ?B = "main example_join (example_request example_proxy (Inr example_impl))
              example_clock example_config Map.empty"
  let ?R1 = "single_file_result (js ''out'') example_proxy (js ''P_Proxy'')"
  let ?G1 = "Map.empty(example_join (js ''out'') (js ''P.sol'') \<mapsto> js ''contract P {}'')"
  let ?M1 = "JObj [(js ''0xP'', manifest_entry (js ''0xP'') ?R1 (example_clock 0))]"
  let ?G2 = "?G1(?P \<mapsto> JSON_stringify ?M1)"
  let ?G3 = "?G2(example_join (js ''out'') (js ''Impl.sol'') \<mapsto> js ''contract Impl {}'')"
  have "\<exists>files2.
           ?B = \<lparr> outcome = Inr (), disk = files2,
               saved = [(address example_config,
                         single_file_result (outputDir example_config) example_proxy
                           (ContractName example_proxy @ js ''_Proxy'')),
                        (Implementation example_proxy,
                         single_file_result (outputDir example_config) example_impl
                           (ContractName example_impl))] \<rparr>"
    by (rule example_proxy_run)
      (simp_all add: example_proxy_facts example_impl_facts example_config_facts plain_sources,
        simp_all add: js_def)
  then have okB: "outcome ?B = Inr ()"
    and svB: "map fst (saved ?B) = [js ''0xP'', js ''0xI'']"
    by (auto simp: example_config_facts example_proxy_facts)
  note tB = C10_addresses_are_keys_verbatim [OF okB]
  have fB0: "fetchContract (example_request example_proxy (Inr example_impl) 0)
              (apiUrl example_config) (address example_config) (apiKey example_config)
              (chainId example_config) = Inr example_proxy"
    by (rule example_fetch_first)
  have wB1: "writeContractFiles example_join example_proxy (js ''out'') (js ''P_Proxy'') Map.empty
               = (Inr ?R1, ?G1)"
    using writeContractFiles_plain [of example_proxy example_join "js ''out''" "js ''P_Proxy''" Map.empty]
    by (simp add: example_proxy_facts plain_sources names)
  have lB1: "load_results ?G1 ?P = JObj []"
    by (rule load_results_absent) (simp add: example_join_inject names)
  have uB1: "upsert (load_results ?G1 ?P) (js ''0xP'') ?R1 (example_clock 0) = Inr ?M1"
    by (simp add: lB1 upsert_object names)
  have wB2: "writeContractFiles example_join example_impl (js ''out'') (js ''Impl'') ?G2
               = (Inr ?R, ?G3)"
    using writeContractFiles_plain [of example_impl example_join "js ''out''" "js ''Impl''" ?G2]
    by (simp add: example_impl_facts plain_sources names)
  have "?G3 ?P = Some (JSON_stringify ?M1)"
    by (simp add: example_join_inject names)
  then obtain kvs3 where lB3: "load_results ?G3 ?P = JObj kvs3"
    using load_results_stringified by blast
  have kB: "\<exists>kvs'. disk ?B ?P = Some (JSON_stringify (JObj kvs'))
              \<and> map_of kvs' (js ''0xI'') = Some (manifest_entry (js ''0xI'') ?R (example_clock 1))"
  proof -
    from tB fB0 obtain r1 files1 m1 r2 files3 where
      w1: "writeContractFiles example_join example_proxy (js ''out'') (js ''P_Proxy'') Map.empty
             = (Inr r1, files1)"
      and u1: "upsert (load_results files1 ?P) (js ''0xP'') r1 (example_clock 0) = Inr m1"
      and w2: "writeContractFiles example_join example_impl (js ''out'') (js ''Impl'')
                 (files1(?P \<mapsto> JSON_stringify m1)) = (Inr r2, files3)"
      and k: "\<forall>kvs. load_results files3 ?P = JObj kvs
                \<longrightarrow> js ''0xI'' \<noteq> js ''__proto__''
                \<longrightarrow> (\<exists>kvs'. disk ?B ?P = Some (JSON_stringify (JObj kvs'))
                       \<and> map_of kvs' (js ''0xI'') = Some (manifest_entry (js ''0xI'') r2 (example_clock 1))
                       \<and> (\<forall>b. b \<noteq> js ''0xI'' \<longrightarrow> map_of kvs' b = map_of kvs b))"
      by (auto simp: example_config_facts example_proxy_facts example_impl_facts names
          example_fetch_first example_fetch_second)
    from w1 wB1 have e1: "r1 = ?R1" "files1 = ?G1"
      by simp_all
    with u1 uB1 have e2: "m1 = ?M1"
      by simp
    from w2 e1 e2 wB2 have e3: "r2 = ?R" "files3 = ?G3"
      by simp_all
    from k e3 lB3 names show ?thesis
      by blast
  qed
  from okA names(1) kA okB svB kB show ?thesis
    by blast
qed

end
